theory Spec2Isabelle
  imports Main "HOL-Library.Sublist"
begin

section \<open>Values, exceptions and the cluster\<close>

text \<open>
  The development embeds \<^verbatim>\<open>curator/actions.py\<close>: the nine action classes that
  mutate indices and snapshots of a search cluster through a client handle.

  Every effect of the source is explicit. A run appends events to a trace: a request
  to the cluster through a client handle, a line written to the logger, or a call of
  \<^verbatim>\<open>time.sleep\<close>. The cluster is a parameter: a function that answers each
  request, given the trace so far, with a response or with an exception. Exceptions
  are values: a program returns \<open>Inl e\<close> where the source raises \<open>e\<close>.
\<close>

type_synonym client = nat

text \<open>
  A value whose Python type the source inspects
  (\<^verbatim>\<open>type(master_timeout) == type(int())\<close>).
\<close>

datatype pyval = PyNone | PyInt int | PyStr string

text \<open>
  The exception classes the source raises, with their messages. An execution failure
  also carries the exception it reports, when there is one.
\<close>

datatype exn =
    MissingArgument string
  | ActionError string
  | ValueError string
  | TypeError string
  | AttributeError string
  | CuratorException string
  | SnapshotInProgress string
  | EmptyCollectionError
  | TransportError string
  | FailedExecution string "exn option"

text \<open>
  One entry of the body of \<^verbatim>\<open>update_aliases\<close>:
  \<^verbatim>\<open>{ 'add' : { 'index' : index, 'alias': self.alias } }\<close> is \<open>Add index alias\<close>.
\<close>

datatype alias_op = Add string string | Remove string string

text \<open>
  Modelled from the spec: \<^verbatim>\<open>create_snapshot_body\<close> (in \<^verbatim>\<open>utils\<close>, not among
  the sources) builds the body of the snapshot request from the indices and the options
  \<^verbatim>\<open>ignore_unavailable\<close>, \<^verbatim>\<open>include_global_state\<close> and \<^verbatim>\<open>partial\<close>.
\<close>

record snapshot_body =
  sb_indices :: string
  sb_ignore_unavailable :: bool
  sb_include_global_state :: bool
  sb_partial :: bool

text \<open>
  The requests the actions send. The first group are the methods of the client the
  source calls directly, with their arguments in the order of the source. The second
  group are the queries made by the helpers of \<^verbatim>\<open>utils\<close> that take the client
  (\<^verbatim>\<open>get_indices\<close>, \<^verbatim>\<open>repository_exists\<close>, \<^verbatim>\<open>test_repo_fs\<close>,
  \<^verbatim>\<open>snapshot_running\<close>, and the poll inside \<^verbatim>\<open>safe_to_snap\<close>).
\<close>

datatype call =
    UpdateAliases "alias_op list"
  | PutSettings string string
  | Flush string bool
  | Close string bool
  | Delete string string
  | Forcemerge string int
  | Open string
  | SnapshotDelete string string
  | SnapshotCreate string string snapshot_body bool
  | SnapshotGet string string
  | GetIndices
  | RepositoryExists string
  | TestRepoFs string
  | SnapshotRunning
  | InProgressPoll string

datatype resp = Ack | Names "string list" | Flag bool | SnapshotStates "string list"

datatype level = Debug | Info | Warn | Error

text \<open>
  A log line is its level, the format string of the source and the arguments given to
  \<^verbatim>\<open>format\<close>, kept as values.
\<close>

datatype arg = AStr string | AInt int | ABool bool | AList "string list" | AOps "alias_op list"

datatype event = Request client call | Log level string "arg list" | Sleep int

type_synonym trace = "event list"

type_synonym cluster = "trace \<Rightarrow> client \<Rightarrow> call \<Rightarrow> exn + resp"

type_synonym 'a prog = "trace \<Rightarrow> (exn + 'a) \<times> trace"

definition ret :: "'a \<Rightarrow> 'a prog" where
  "ret x t = (Inr x, t)"

definition raise :: "exn \<Rightarrow> 'a prog" where
  "raise e t = (Inl e, t)"

definition bnd :: "'a prog \<Rightarrow> ('a \<Rightarrow> 'b prog) \<Rightarrow> 'b prog" where
  "bnd m f t = (case m t of (Inl e, t') \<Rightarrow> (Inl e, t') | (Inr x, t') \<Rightarrow> f x t')"

definition thn :: "unit prog \<Rightarrow> 'a prog \<Rightarrow> 'a prog" where
  "thn m n = bnd m (\<lambda>_. n)"

text \<open>\<^verbatim>\<open>try: m  except Exception as e: h(e)\<close>\<close>

definition try_except :: "'a prog \<Rightarrow> (exn \<Rightarrow> 'a prog) \<Rightarrow> 'a prog" where
  "try_except m h t = (case m t of (Inl e, t') \<Rightarrow> h e t' | (Inr x, t') \<Rightarrow> (Inr x, t'))"

text \<open>A request: the cluster answers from the trace so far, and the request is recorded.\<close>

definition request :: "cluster \<Rightarrow> client \<Rightarrow> call \<Rightarrow> resp prog" where
  "request cl c q t = (cl t c q, t @ [Request c q])"

definition loggit :: "level \<Rightarrow> string \<Rightarrow> arg list \<Rightarrow> unit prog" where
  "loggit l m as t = (Inr (), t @ [Log l m as])"

definition sleep :: "int \<Rightarrow> unit prog" where
  "sleep n t = (Inr (), t @ [Sleep n])"

text \<open>\<^verbatim>\<open>for x in xs: body(x)\<close>: the first exception ends the loop.\<close>

fun for_each :: "'a list \<Rightarrow> ('a \<Rightarrow> unit prog) \<Rightarrow> unit prog" where
  "for_each [] body = ret ()"
| "for_each (x # xs) body = thn (body x) (for_each xs body)"

text \<open>A sequence of statements.\<close>

fun block :: "unit prog list \<Rightarrow> unit prog" where
  "block [] = ret ()"
| "block (p # ps) = thn p (block ps)"

text \<open>The requests of a trace, in order, and the requests that mutate indices by deletion.\<close>

fun requests :: "trace \<Rightarrow> (client \<times> call) list" where
  "requests [] = []"
| "requests (Request c q # es) = (c, q) # requests es"
| "requests (e # es) = requests es"

fun delete_calls :: "trace \<Rightarrow> string list" where
  "delete_calls [] = []"
| "delete_calls (Request c (Delete csv mt) # es) = csv # delete_calls es"
| "delete_calls (e # es) = delete_calls es"

fun snapshot_delete_calls :: "trace \<Rightarrow> string list" where
  "snapshot_delete_calls [] = []"
| "snapshot_delete_calls (Request c (SnapshotDelete r s) # es) = s # snapshot_delete_calls es"
| "snapshot_delete_calls (e # es) = snapshot_delete_calls es"

fun is_snapshot_create :: "event \<Rightarrow> bool" where
  "is_snapshot_create (Request c (SnapshotCreate r n b w)) = True"
| "is_snapshot_create e = False"

subsection \<open>Python's truth values and \<^verbatim>\<open>str\<close>\<close>

text \<open>
  An optional argument is \<open>None\<close> when the caller leaves it out (every default of the
  source that is tested is \<^verbatim>\<open>None\<close>). \<^verbatim>\<open>not x\<close> holds of \<^verbatim>\<open>None\<close>, of the
  empty string and of zero.
\<close>

fun truthy_str :: "string option \<Rightarrow> bool" where
  "truthy_str None = False"
| "truthy_str (Some s) = (s \<noteq> [])"

definition digit_char :: "nat \<Rightarrow> char" where
  "digit_char n = ''0123456789'' ! n"

function str_nat :: "nat \<Rightarrow> string" where
  "str_nat n = (if n < 10 then [digit_char n] else str_nat (n div 10) @ [digit_char (n mod 10)])"
  by pat_completeness auto
termination
  by (relation "measure id") auto

declare str_nat.simps [simp del]

definition str_int :: "int \<Rightarrow> string" where
  "str_int i = (if i < 0 then ''-'' @ str_nat (nat (- i)) else str_nat (nat i))"

fun py_type_repr :: "pyval \<Rightarrow> string" where
  "py_type_repr PyNone = ''<class 'NoneType'>''"
| "py_type_repr (PyInt n) = ''<class 'int'>''"
| "py_type_repr (PyStr s) = ''<class 'str'>''"

section \<open>The collaborators: collections and helpers\<close>

text \<open>
  Modelled from the spec: the identifier collections \<^verbatim>\<open>IndexList\<close> and
  \<^verbatim>\<open>SnapshotList\<close> are not among the sources. The spec gives their interface: an ordered
  collection of names with a handle to the cluster, a filter that drops closed indices, a
  filter that drops indices already at or below a target segment count per shard
  (determined by a prior query of per-shard segment counts), and an empty-set guard. The
  state of the indices that the filters read is the collection's own, gathered by that
  prior query: the names of the closed indices, and the segment count of each shard of
  an index.
\<close>

record index_list =
  il_client :: client
  indices :: "string list"
  closed_indices :: "string list"
  segment_counts :: "string \<Rightarrow> nat list"

record snapshot_list =
  sl_client :: client
  snapshots :: "string list"
  sl_repository :: string

text \<open>What a caller may pass where the source expects a collection.\<close>

datatype pyobj = IndexList index_list | SnapshotList snapshot_list | OtherObject

text \<open>
  Modelled from the spec: \<^verbatim>\<open>verify_index_list\<close> and \<^verbatim>\<open>verify_snapshot_list\<close>
  are not among the sources. Construction fails when the collection reference is not of
  the recognized collection type.
\<close>

fun verify_index_list :: "pyobj \<Rightarrow> exn + index_list" where
  "verify_index_list (IndexList il) = Inr il"
| "verify_index_list obj = Inl (TypeError ''Not an IndexList object.'')"

fun verify_snapshot_list :: "pyobj \<Rightarrow> exn + snapshot_list" where
  "verify_snapshot_list (SnapshotList sl) = Inr sl"
| "verify_snapshot_list obj = Inl (TypeError ''Not a SnapshotList object.'')"

text \<open>
  Modelled from the spec: \<^verbatim>\<open>empty_list_check\<close> is the empty-set guard of a collection;
  it raises the empty-collection error when the collection has no identifier.
\<close>

definition empty_list_check :: "string list \<Rightarrow> unit prog" where
  "empty_list_check xs = (if xs = [] then raise EmptyCollectionError else ret ())"

text \<open>Modelled from the spec: \<^verbatim>\<open>working_list\<close> is the working identifier set.\<close>

definition working_list :: "index_list \<Rightarrow> string list" where
  "working_list il = indices il"

text \<open>
  Modelled from the spec: \<^verbatim>\<open>filter_closed\<close> drops the closed indices from the
  collection, in place; the model returns the filtered collection.
\<close>

definition filter_closed :: "index_list \<Rightarrow> index_list" where
  "filter_closed il = il\<lparr>indices := filter (\<lambda>i. i \<notin> set (closed_indices il)) (indices il)\<rparr>"

text \<open>
  Modelled from the spec: \<^verbatim>\<open>filter_forceMerged\<close> drops the indices already at or
  below the target segment count per shard: an index stays when one of its shards has
  more segments than \<open>max_num_segments\<close>.
\<close>

definition filter_forceMerged :: "int \<Rightarrow> index_list \<Rightarrow> index_list" where
  "filter_forceMerged max_num_segments il =
     il\<lparr>indices := filter (\<lambda>i. list_ex (\<lambda>n. max_num_segments < int n) (segment_counts il i))
                       (indices il)\<rparr>"

text \<open>
  Modelled from the spec: \<^verbatim>\<open>to_csv\<close> joins the identifiers of a bulk call into a
  single delimited string.
\<close>

fun to_csv :: "string list \<Rightarrow> string" where
  "to_csv [] = []"
| "to_csv [x] = x"
| "to_csv (x # y # ys) = x @ '','' @ to_csv (y # ys)"

text \<open>
  Modelled from the spec: \<^verbatim>\<open>report_failure\<close> is the uniform execution-failure path:
  the exception caught is logged and re-raised as an execution failure.
\<close>

definition report_failure :: "exn \<Rightarrow> unit prog" where
  "report_failure e =
     thn (loggit Error ''Exception encountered.'' [])
       (raise (FailedExecution ''Exception encountered.'' (Some e)))"

text \<open>
  Modelled from the spec: \<^verbatim>\<open>get_indices\<close> re-queries the cluster's current index
  set. A response of another shape fails as indexing it would in Python.
\<close>

definition get_indices :: "cluster \<Rightarrow> client \<Rightarrow> string list prog" where
  "get_indices cl c =
     bnd (request cl c GetIndices)
       (\<lambda>r. case r of Names ns \<Rightarrow> ret ns | _ \<Rightarrow> raise (TypeError ''bad response''))"

text \<open>Reading a yes-or-no answer; a response of another shape fails the same way.\<close>

definition expect_flag :: "resp \<Rightarrow> bool prog" where
  "expect_flag r = (case r of Flag b \<Rightarrow> ret b | _ \<Rightarrow> raise (TypeError ''bad response''))"

text \<open>
  Modelled from the spec: \<^verbatim>\<open>repository_exists\<close> checks that the target repository
  exists; a repository that is not given is a missing required parameter.
\<close>

definition repository_exists :: "cluster \<Rightarrow> client \<Rightarrow> string option \<Rightarrow> bool prog" where
  "repository_exists cl c repository =
     (case repository of
        None \<Rightarrow> raise (MissingArgument ''No value for \"repository\" provided'')
      | Some r \<Rightarrow> bnd (request cl c (RepositoryExists r)) expect_flag)"

text \<open>
  Modelled from the spec: \<^verbatim>\<open>test_repo_fs\<close> checks that the filesystem of the
  repository is writable from all nodes; it raises when the cluster answers the check
  with an exception.
\<close>

definition test_repo_fs :: "cluster \<Rightarrow> client \<Rightarrow> string \<Rightarrow> unit prog" where
  "test_repo_fs cl c repository = bnd (request cl c (TestRepoFs repository)) (\<lambda>_. ret ())"

text \<open>
  Modelled from the spec: \<^verbatim>\<open>snapshot_running\<close> is the snapshot-in-progress check
  made before a snapshot is created. The source passes it the client only.
\<close>

definition snapshot_running :: "cluster \<Rightarrow> client \<Rightarrow> bool prog" where
  "snapshot_running cl c = bnd (request cl c SnapshotRunning) expect_flag"

text \<open>
  Modelled from the spec: \<^verbatim>\<open>safe_to_snap\<close> confirms that no snapshot of the repository
  is in progress, polling up to \<open>retry_count\<close> times with a wait of \<open>retry_interval\<close>
  seconds between polls. It returns \<open>True\<close> at the first poll that finds the repository
  free and \<open>False\<close> when the polls are exhausted.
\<close>

fun poll_in_progress :: "cluster \<Rightarrow> client \<Rightarrow> string \<Rightarrow> int \<Rightarrow> nat \<Rightarrow> bool prog" where
  "poll_in_progress cl c repository retry_interval 0 = ret False"
| "poll_in_progress cl c repository retry_interval (Suc n) =
     bnd (bnd (request cl c (InProgressPoll repository)) expect_flag)
       (\<lambda>busy. if \<not> busy then ret True
          else if n = 0 then ret False
          else thn (sleep retry_interval) (poll_in_progress cl c repository retry_interval n))"

definition safe_to_snap :: "cluster \<Rightarrow> client \<Rightarrow> string \<Rightarrow> int \<Rightarrow> int \<Rightarrow> bool prog" where
  "safe_to_snap cl c repository retry_interval retry_count =
     poll_in_progress cl c repository retry_interval (nat retry_count)"

text \<open>
  Modelled from the spec: \<^verbatim>\<open>create_snapshot_body\<close> puts the joined indices and the
  three options into the body of the snapshot request.
\<close>

definition create_snapshot_body :: "string list \<Rightarrow> bool \<Rightarrow> bool \<Rightarrow> bool \<Rightarrow> snapshot_body" where
  "create_snapshot_body idx ignore_unavailable include_global_state partial =
     \<lparr>sb_indices = to_csv idx, sb_ignore_unavailable = ignore_unavailable,
      sb_include_global_state = include_global_state, sb_partial = partial\<rparr>"

subsection \<open>Chunking\<close>

text \<open>
  Modelled from the spec: \<^verbatim>\<open>chunk_index_list\<close> is not among the sources. Section 4.2
  of the spec: iterate the input, accumulate into the current chunk while adding an
  element would not violate the count bound or the bound on the serialized length (the
  identifiers joined by the delimiter); on violation, close the current chunk and start
  a new one with that element. A current chunk that is still empty is not emitted, so
  an element that alone exceeds the size bound occupies a chunk of its own. The defaults
  are 3000 identifiers and 3 KiB.
\<close>

text \<open>
  Modelled from the spec: the serialized length of a chunk is the length of its
  identifiers joined by the delimiter, and a chunk is within the bounds when neither its
  count nor its serialized length exceeds its bound.
\<close>

definition serialized_length :: "string list \<Rightarrow> nat" where
  "serialized_length xs = length (to_csv xs)"

definition fits :: "nat \<Rightarrow> nat \<Rightarrow> string list \<Rightarrow> bool" where
  "fits max_count max_size c = (length c \<le> max_count \<and> serialized_length c \<le> max_size)"

text \<open>
  Modelled from the spec: the accumulation of section 4.2, with the current chunk as an
  argument.
\<close>

definition close_chunk :: "string list \<Rightarrow> string list list" where
  "close_chunk cur = (if cur = [] then [] else [cur])"

fun chunk_from :: "nat \<Rightarrow> nat \<Rightarrow> string list \<Rightarrow> string list \<Rightarrow> string list list" where
  "chunk_from max_count max_size cur [] = close_chunk cur"
| "chunk_from max_count max_size cur (x # xs) =
     (if fits max_count max_size (cur @ [x])
      then chunk_from max_count max_size (cur @ [x]) xs
      else close_chunk cur @ chunk_from max_count max_size [x] xs)"

definition chunk_index_list_bounded :: "nat \<Rightarrow> nat \<Rightarrow> string list \<Rightarrow> string list list" where
  "chunk_index_list_bounded max_count max_size xs = chunk_from max_count max_size [] xs"

text \<open>
  Modelled from the spec: the default bounds, and \<^verbatim>\<open>chunk_index_list\<close> as the
  actions call it, with the identifiers as its only argument.
\<close>

definition default_max_count :: nat where
  "default_max_count = 3000"

definition default_max_size :: nat where
  "default_max_size = 3072"

definition chunk_index_list :: "string list \<Rightarrow> string list list" where
  "chunk_index_list xs = chunk_index_list_bounded default_max_count default_max_size xs"

subsection \<open>Shorthands\<close>

text \<open>A call of a client method whose return value the source drops.\<close>

definition invoke :: "cluster \<Rightarrow> client \<Rightarrow> call \<Rightarrow> unit prog" where
  "invoke cl c q = bnd (request cl c q) (\<lambda>_. ret ())"

text \<open>\<^verbatim>\<open>format\<close> of an optional string.\<close>

fun opt_str :: "string option \<Rightarrow> string" where
  "opt_str None = ''None''"
| "opt_str (Some s) = s"

section \<open>The actions\<close>

subsection \<open>Alias\<close>

record alias_obj =
  alias_name :: string
  actions :: "alias_op list"
  al_client :: "client option"

definition Alias_init :: "string option \<Rightarrow> alias_obj prog" where
  "Alias_init alias_arg =
     (if \<not> truthy_str alias_arg
      then raise (MissingArgument ''No value for \"alias\" provided.'')
      else ret \<lparr>alias_name = opt_str alias_arg, actions = [], al_client = None\<rparr>)"

text \<open>
  \<^verbatim>\<open>add\<close> and \<^verbatim>\<open>remove\<close> change the object: they return it beside the result,
  also when they raise (the client is bound before the empty-set guard).
\<close>

fun add_loop :: "string list \<Rightarrow> alias_obj \<Rightarrow> trace \<Rightarrow> alias_obj \<times> trace" where
  "add_loop [] self t = (self, t)"
| "add_loop (index # rest) self t =
     add_loop rest
       (self\<lparr>actions := actions self @ [Add index (alias_name self)]\<rparr>)
       (t @ [Log Debug ''Adding index {0} to alias {1}'' [AStr index, AStr (alias_name self)]])"

fun remove_loop :: "string list \<Rightarrow> alias_obj \<Rightarrow> trace \<Rightarrow> alias_obj \<times> trace" where
  "remove_loop [] self t = (self, t)"
| "remove_loop (index # rest) self t =
     remove_loop rest
       (self\<lparr>actions := actions self @ [Remove index (alias_name self)]\<rparr>)
       (t @ [Log Debug ''Removing index {0} from alias {1}'' [AStr index, AStr (alias_name self)]])"

definition bind_client :: "alias_obj \<Rightarrow> index_list \<Rightarrow> alias_obj" where
  "bind_client self il =
     (if al_client self = None then self\<lparr>al_client := Some (il_client il)\<rparr> else self)"

definition Alias_add :: "alias_obj \<Rightarrow> pyobj \<Rightarrow> trace \<Rightarrow> (exn + unit) \<times> alias_obj \<times> trace" where
  "Alias_add self ilo t =
     (case verify_index_list ilo of
        Inl e \<Rightarrow> (Inl e, self, t)
      | Inr il \<Rightarrow>
          (case empty_list_check (indices il) t of
             (Inl e, t1) \<Rightarrow> (Inl e, bind_client self il, t1)
           | (Inr u, t1) \<Rightarrow>
               (case add_loop (working_list il) (bind_client self il) t1 of
                  (self2, t2) \<Rightarrow> (Inr (), self2, t2))))"

definition Alias_remove :: "alias_obj \<Rightarrow> pyobj \<Rightarrow> trace \<Rightarrow> (exn + unit) \<times> alias_obj \<times> trace" where
  "Alias_remove self ilo t =
     (case verify_index_list ilo of
        Inl e \<Rightarrow> (Inl e, self, t)
      | Inr il \<Rightarrow>
          (case empty_list_check (indices il) t of
             (Inl e, t1) \<Rightarrow> (Inl e, bind_client self il, t1)
           | (Inr u, t1) \<Rightarrow>
               (case remove_loop (working_list il) (bind_client self il) t1 of
                  (self2, t2) \<Rightarrow> (Inr (), self2, t2))))"

definition Alias_body :: "alias_obj \<Rightarrow> alias_op list prog" where
  "Alias_body self =
     (if actions self = []
      then raise (ActionError ''No \"add\" or \"remove\" operations'')
      else thn (loggit Debug ''Alias actions: {0}'' [AOps (actions self)]) (ret (actions self)))"

text \<open>
  In \<^verbatim>\<open>self.client.indices.update_aliases(body=self.body())\<close> Python looks the
  method up before it evaluates the argument: with no client bound the attribute error
  comes first. Both happen inside the \<^verbatim>\<open>try\<close>.
\<close>

definition Alias_do_action :: "cluster \<Rightarrow> alias_obj \<Rightarrow> unit prog" where
  "Alias_do_action cl self =
     thn (loggit Info ''Updating aliases...'' [])
       (try_except
          (case al_client self of
             None \<Rightarrow> raise (AttributeError ''NoneType object has no attribute indices'')
           | Some c \<Rightarrow> bnd (Alias_body self) (\<lambda>body. invoke cl c (UpdateAliases body)))
          report_failure)"

subsection \<open>Allocation\<close>

record allocation_obj =
  alloc_index_list :: index_list
  alloc_client :: client
  alloc_body :: string

definition Allocation_init ::
  "pyobj \<Rightarrow> string option \<Rightarrow> string option \<Rightarrow> string \<Rightarrow> allocation_obj prog" where
  "Allocation_init ilo key val allocation_type =
     (case verify_index_list ilo of
        Inl e \<Rightarrow> raise e
      | Inr il \<Rightarrow>
          if \<not> truthy_str key then raise (MissingArgument ''No value for \"key\" provided'')
          else if \<not> truthy_str val then raise (MissingArgument ''No value for \"value\" provided'')
          else if allocation_type \<notin> set [''require'', ''include'', ''exclude'']
          then raise (ValueError (allocation_type @
                 '' is an invalid allocation_type.  Must be one of \"require\", \"include\", \"exclude\".''))
          else ret \<lparr>alloc_index_list = il, alloc_client = il_client il,
                    alloc_body = ''index.routing.allocation.'' @ allocation_type @ ''.''
                                   @ opt_str key @ ''='' @ opt_str val\<rparr>)"

definition Allocation_do_action :: "cluster \<Rightarrow> allocation_obj \<Rightarrow> unit prog" where
  "Allocation_do_action cl self =
     (let il = filter_closed (alloc_index_list self) in
      block
       [loggit Info
          ''Cannot get change shard routing allocation of closed indices.  Omitting any closed indices.'' [],
        empty_list_check (indices il),
        loggit Info ''Updating index setting {0}'' [AStr (alloc_body self)],
        try_except
          (for_each (chunk_index_list (indices il))
             (\<lambda>l. invoke cl (alloc_client self) (PutSettings (to_csv l) (alloc_body self))))
          report_failure])"

subsection \<open>Close\<close>

record close_obj =
  close_index_list :: index_list
  close_client :: client

definition Close_init :: "pyobj \<Rightarrow> close_obj prog" where
  "Close_init ilo =
     (case verify_index_list ilo of
        Inl e \<Rightarrow> raise e
      | Inr il \<Rightarrow> ret \<lparr>close_index_list = il, close_client = il_client il\<rparr>)"

definition Close_do_action :: "cluster \<Rightarrow> close_obj \<Rightarrow> unit prog" where
  "Close_do_action cl self =
     (let il = filter_closed (close_index_list self) in
      block
       [empty_list_check (indices il),
        loggit Info ''Closing selected indices'' [],
        try_except
          (for_each (chunk_index_list (indices il))
             (\<lambda>l. block
                [invoke cl (close_client self) (Flush (to_csv l) True),
                 invoke cl (close_client self) (Close (to_csv l) True)]))
          report_failure])"

subsection \<open>DeleteIndices\<close>

record delete_indices_obj =
  di_index_list :: index_list
  di_client :: client
  master_timeout :: string

definition DeleteIndices_init :: "pyobj \<Rightarrow> pyval \<Rightarrow> delete_indices_obj prog" where
  "DeleteIndices_init ilo master_timeout_arg =
     (case verify_index_list ilo of
        Inl e \<Rightarrow> raise e
      | Inr il \<Rightarrow>
          (case master_timeout_arg of
             PyInt n \<Rightarrow>
               thn (loggit Debug ''master_timeout value: {0}'' [AStr (str_int n @ ''s'')])
                 (ret \<lparr>di_index_list = il, di_client = il_client il,
                       master_timeout = str_int n @ ''s''\<rparr>)
           | other \<Rightarrow>
               raise (TypeError (''Incorrect type for \"master_timeout\": '' @ py_type_repr other
                        @ ''. Should be integer value.''))))"

definition verify_result :: "string list \<Rightarrow> int \<Rightarrow> bool prog" where
  "verify_result result count =
     (if length result > 0
      then thn (loggit Error ''The following indices failed to delete on try #{0}:'' [AInt count])
             (thn (for_each result (\<lambda>idx. loggit Error ''---{0}'' [AStr idx])) (ret False))
      else thn (loggit Debug ''Successfully deleted all indices on try #{0}'' [AInt count])
             (ret True))"

text \<open>
  \<^verbatim>\<open>[ i for i in working_list if i in get_indices(self.client)]\<close>: the condition is
  evaluated for each element, so the index set is queried once per element.
\<close>

fun still_present :: "cluster \<Rightarrow> client \<Rightarrow> string list \<Rightarrow> string list prog" where
  "still_present cl c [] = ret []"
| "still_present cl c (i # rest) =
     bnd (get_indices cl c)
       (\<lambda>names. bnd (still_present cl c rest)
          (\<lambda>kept. ret (if i \<in> set names then i # kept else kept)))"

text \<open>
  The body of the loop of \<^verbatim>\<open>__chunk_loop\<close> for one value of \<open>count\<close>: the delete
  call for the working list, the re-query, and the verdict of \<^verbatim>\<open>_verify_result\<close>
  with the list of the indices still present.
\<close>

definition chunk_loop_body ::
  "cluster \<Rightarrow> delete_indices_obj \<Rightarrow> string list \<Rightarrow> int \<Rightarrow> (bool \<times> string list) prog" where
  "chunk_loop_body cl self working count =
     thn (for_each working (\<lambda>i. loggit Info ''---deleting index {0}'' [AStr i]))
       (thn (invoke cl (di_client self) (Delete (to_csv working) (master_timeout self)))
          (bnd (still_present cl (di_client self) working)
             (\<lambda>result. bnd (verify_result result count) (\<lambda>ok. ret (ok, result)))))"

text \<open>
  The loop over \<^verbatim>\<open>range(1, 4)\<close>. The last argument is the variable \<open>result\<close>, read
  after the loop; the loop runs at least once, so it is bound there.
\<close>

fun chunk_loop_from ::
  "cluster \<Rightarrow> delete_indices_obj \<Rightarrow> int list \<Rightarrow> string list \<Rightarrow> string list \<Rightarrow> unit prog" where
  "chunk_loop_from cl self [] working result =
     loggit Error ''Unable to delete the following indices after 3 attempts: {0}'' [AList result]"
| "chunk_loop_from cl self (count # counts) working result =
     bnd (chunk_loop_body cl self working count)
       (\<lambda>(ok, res). if ok then ret () else chunk_loop_from cl self counts res res)"

definition chunk_loop :: "cluster \<Rightarrow> delete_indices_obj \<Rightarrow> string list \<Rightarrow> unit prog" where
  "chunk_loop cl self chunk_list = chunk_loop_from cl self [1, 2, 3] chunk_list []"

definition DeleteIndices_do_action :: "cluster \<Rightarrow> delete_indices_obj \<Rightarrow> unit prog" where
  "DeleteIndices_do_action cl self =
     block
       [empty_list_check (indices (di_index_list self)),
        loggit Info ''Deleting selected indices'' [],
        try_except
          (for_each (chunk_index_list (indices (di_index_list self))) (chunk_loop cl self))
          report_failure]"

subsection \<open>ForceMerge\<close>

record force_merge_obj =
  fm_client :: client
  fm_index_list :: index_list
  max_num_segments :: int
  delay :: int

text \<open>\<^verbatim>\<open>if not max_num_segments\<close> holds of \<^verbatim>\<open>None\<close> and of zero.\<close>

definition ForceMerge_init :: "pyobj \<Rightarrow> int option \<Rightarrow> int \<Rightarrow> force_merge_obj prog" where
  "ForceMerge_init ilo max_num_segments_arg delay_arg =
     (case verify_index_list ilo of
        Inl e \<Rightarrow> raise e
      | Inr il \<Rightarrow>
          (case max_num_segments_arg of
             None \<Rightarrow> raise (MissingArgument ''Missing value for \"max_num_segments\"'')
           | Some n \<Rightarrow>
               if n = 0 then raise (MissingArgument ''Missing value for \"max_num_segments\"'')
               else ret \<lparr>fm_client = il_client il, fm_index_list = il,
                         max_num_segments = n, delay = delay_arg\<rparr>))"

definition ForceMerge_do_action :: "cluster \<Rightarrow> force_merge_obj \<Rightarrow> unit prog" where
  "ForceMerge_do_action cl self =
     block
       [empty_list_check (indices (fm_index_list self)),
        (let il = filter_forceMerged (max_num_segments self) (fm_index_list self) in
         block
          [loggit Info ''forceMerging selected indices'' [],
           try_except
             (for_each (indices il)
                (\<lambda>index_name. block
                   [loggit Info
                      ''forceMerging index {0} to {1} segments per shard.  Please wait...''
                      [AStr index_name, AInt (max_num_segments self)],
                    invoke cl (fm_client self) (Forcemerge index_name (max_num_segments self)),
                    (if delay self > 0
                     then block
                       [loggit Info ''Pausing for {0} seconds before continuing...'' [AInt (delay self)],
                        sleep (delay self)]
                     else ret ())]))
             report_failure])]"

subsection \<open>Open\<close>

record open_obj =
  open_client :: client
  open_index_list :: index_list

definition Open_init :: "pyobj \<Rightarrow> open_obj prog" where
  "Open_init ilo =
     (case verify_index_list ilo of
        Inl e \<Rightarrow> raise e
      | Inr il \<Rightarrow> ret \<lparr>open_client = il_client il, open_index_list = il\<rparr>)"

definition Open_do_action :: "cluster \<Rightarrow> open_obj \<Rightarrow> unit prog" where
  "Open_do_action cl self =
     block
       [empty_list_check (indices (open_index_list self)),
        loggit Info ''Opening selected indices'' [],
        try_except
          (for_each (chunk_index_list (indices (open_index_list self)))
             (\<lambda>l. invoke cl (open_client self) (Open (to_csv l))))
          report_failure]"

subsection \<open>Replicas\<close>

record replicas_obj =
  rep_client :: client
  rep_index_list :: index_list
  rep_count :: int

text \<open>
  \<^verbatim>\<open>if count == 0: pass  elif not count: raise MissingArgument\<close>: zero is accepted,
  \<^verbatim>\<open>None\<close> is not.
\<close>

definition Replicas_init :: "pyobj \<Rightarrow> int option \<Rightarrow> replicas_obj prog" where
  "Replicas_init ilo count =
     (case verify_index_list ilo of
        Inl e \<Rightarrow> raise e
      | Inr il \<Rightarrow>
          (case count of
             None \<Rightarrow> raise (MissingArgument ''Missing value for \"count\"'')
           | Some n \<Rightarrow> ret \<lparr>rep_client = il_client il, rep_index_list = il, rep_count = n\<rparr>))"

definition Replicas_do_action :: "cluster \<Rightarrow> replicas_obj \<Rightarrow> unit prog" where
  "Replicas_do_action cl self =
     block
       [empty_list_check (indices (rep_index_list self)),
        loggit Info
          ''Cannot get update replica count of closed indices.  Omitting any closed indices.'' [],
        (let il = filter_closed (rep_index_list self) in
         block
          [loggit Info ''Updating the replica count of selected indices to {0}''
             [AInt (rep_count self)],
           try_except
             (for_each (chunk_index_list (indices il))
                (\<lambda>l. invoke cl (rep_client self)
                        (PutSettings (to_csv l) (''number_of_replicas='' @ str_int (rep_count self)))))
             report_failure])]"

subsection \<open>DeleteSnapshots\<close>

record delete_snapshots_obj =
  ds_client :: client
  retry_interval :: int
  retry_count :: int
  ds_snapshot_list :: snapshot_list
  ds_repository :: string

definition DeleteSnapshots_init :: "pyobj \<Rightarrow> int \<Rightarrow> int \<Rightarrow> delete_snapshots_obj prog" where
  "DeleteSnapshots_init slo retry_interval_arg retry_count_arg =
     (case verify_snapshot_list slo of
        Inl e \<Rightarrow> raise e
      | Inr sl \<Rightarrow>
          ret \<lparr>ds_client = sl_client sl, retry_interval = retry_interval_arg,
               retry_count = retry_count_arg, ds_snapshot_list = sl,
               ds_repository = sl_repository sl\<rparr>)"

definition DeleteSnapshots_do_action :: "cluster \<Rightarrow> delete_snapshots_obj \<Rightarrow> unit prog" where
  "DeleteSnapshots_do_action cl self =
     block
       [empty_list_check (snapshots (ds_snapshot_list self)),
        loggit Info ''Deleting selected snapshots'' [],
        bnd (safe_to_snap cl (ds_client self) (ds_repository self)
               (retry_interval self) (retry_count self))
          (\<lambda>safe. if \<not> safe
             then raise (FailedExecution
                    ''Unable to delete snapshot(s) because a snapshot is in state \"IN_PROGRESS\"''
                    None)
             else ret ()),
        try_except
          (for_each (snapshots (ds_snapshot_list self))
             (\<lambda>s. block
                [loggit Info ''Deleting snapshot {0}...'' [AStr s],
                 invoke cl (ds_client self) (SnapshotDelete (ds_repository self) s)]))
          report_failure]"

subsection \<open>Snapshot\<close>

record snapshot_obj =
  sn_name :: string
  sn_client :: client
  sn_repository :: string
  wait_for_completion :: bool
  skip_repo_fs_check :: bool
  sn_body :: snapshot_body

text \<open>
  \<^verbatim>\<open>parse_snapshot_name\<close> (in \<^verbatim>\<open>utils\<close>, not among the sources) is a parameter of
  the constructor.
\<close>

definition Snapshot_init ::
  "cluster \<Rightarrow> (string \<Rightarrow> exn + string) \<Rightarrow> pyobj \<Rightarrow> string option \<Rightarrow> string option \<Rightarrow>
   bool \<Rightarrow> bool \<Rightarrow> bool \<Rightarrow> bool \<Rightarrow> bool \<Rightarrow> snapshot_obj prog" where
  "Snapshot_init cl parse_snapshot_name ilo repository name ignore_unavailable
     include_global_state partial wait_for_completion_arg skip_repo_fs_check_arg =
     (case verify_index_list ilo of
        Inl e \<Rightarrow> raise e
      | Inr il \<Rightarrow>
          bnd (repository_exists cl (il_client il) repository)
            (\<lambda>found.
               if \<not> found
               then raise (ActionError (''Cannot snapshot indices to missing repository: ''
                             @ opt_str repository))
               else if \<not> truthy_str name
               then raise (MissingArgument ''No value for \"name\" provided.'')
               else (case parse_snapshot_name (opt_str name) of
                       Inl e \<Rightarrow> raise e
                     | Inr parsed \<Rightarrow>
                         ret \<lparr>sn_name = parsed, sn_client = il_client il,
                              sn_repository = opt_str repository,
                              wait_for_completion = wait_for_completion_arg,
                              skip_repo_fs_check = skip_repo_fs_check_arg,
                              sn_body = create_snapshot_body (indices il) ignore_unavailable
                                          include_global_state partial\<rparr>)))"

text \<open>
  \<^verbatim>\<open>self.client.snapshot.get(...)['snapshots'][0]['state']\<close>: an empty list of
  snapshots is the \<^verbatim>\<open>IndexError\<close> that becomes a \<^verbatim>\<open>CuratorException\<close>.
\<close>

definition get_state :: "cluster \<Rightarrow> snapshot_obj \<Rightarrow> string prog" where
  "get_state cl self =
     bnd (request cl (sn_client self) (SnapshotGet (sn_repository self) (sn_name self)))
       (\<lambda>r. case r of
          SnapshotStates (st # rest) \<Rightarrow> ret st
        | SnapshotStates [] \<Rightarrow>
            raise (CuratorException (''Snapshot \"'' @ sn_name self @ ''\" not found in repository \"''
                     @ sn_repository self @ ''\"''))
        | _ \<Rightarrow> raise (TypeError ''bad response''))"

definition report_state :: "cluster \<Rightarrow> snapshot_obj \<Rightarrow> unit prog" where
  "report_state cl self =
     bnd (get_state cl self)
       (\<lambda>st. if st = ''SUCCESS''
          then loggit Info ''Snapshot {0} successfully completed.'' [AStr (sn_name self)]
          else loggit Warn ''Snapshot {0} completed with state: {0}'' [AStr st])"

definition Snapshot_do_action :: "cluster \<Rightarrow> snapshot_obj \<Rightarrow> unit prog" where
  "Snapshot_do_action cl self =
     thn (if \<not> skip_repo_fs_check self
          then test_repo_fs cl (sn_client self) (sn_repository self) else ret ())
       (bnd (snapshot_running cl (sn_client self))
          (\<lambda>running.
             if running then raise (SnapshotInProgress ''Snapshot already in progress.'')
             else try_except
               (thn (invoke cl (sn_client self)
                       (SnapshotCreate (sn_repository self) (sn_name self) (sn_body self)
                          (wait_for_completion self)))
                  (if wait_for_completion self then report_state cl self
                   else loggit Warn
                     ''\"wait_for_completion\" set to {0}. Remember to check for successful completion manually.''
                     [ABool (wait_for_completion self)]))
               report_failure))"

section \<open>Descriptions of traces\<close>

text \<open>
  The events of \<open>k\<close> polls of a repository, with the wait between one poll and the
  next.
\<close>

fun poll_trace :: "client \<Rightarrow> string \<Rightarrow> int \<Rightarrow> nat \<Rightarrow> trace" where
  "poll_trace c repository wait 0 = []"
| "poll_trace c repository wait (Suc 0) = [Request c (InProgressPoll repository)]"
| "poll_trace c repository wait (Suc (Suc k)) =
     Request c (InProgressPoll repository) # Sleep wait # poll_trace c repository wait (Suc k)"

text \<open>
  The events of the deletion of a list of snapshots when every delete call is accepted:
  for each name the log line and then the request.
\<close>

fun delete_trace :: "client \<Rightarrow> string \<Rightarrow> string list \<Rightarrow> trace" where
  "delete_trace c repository [] = []"
| "delete_trace c repository (s # ss) =
     Log Info ''Deleting snapshot {0}...'' [AStr s] # Request c (SnapshotDelete repository s)
       # delete_trace c repository ss"

text \<open>
  The answer of the cluster to the delete call for the snapshot at position \<open>i\<close>,
  asked after the trace \<open>tp\<close> and the deletions of the snapshots before it.
\<close>

definition delete_answer :: "cluster \<Rightarrow> trace \<Rightarrow> client \<Rightarrow> string \<Rightarrow> string list \<Rightarrow> nat \<Rightarrow> exn + resp" where
  "delete_answer cl tp c repository ss i =
     cl (tp @ delete_trace c repository (take i ss)
            @ [Log Info ''Deleting snapshot {0}...'' [AStr (ss ! i)]])
        c (SnapshotDelete repository (ss ! i))"

section \<open>Concrete inputs\<close>

text \<open>A cluster that acknowledges every request, and small collections.\<close>

definition ok_cluster :: cluster where
  "ok_cluster t c q = Inr Ack"

definition il0 :: index_list where
  "il0 = \<lparr>il_client = 0, indices = [''logs-1''], closed_indices = [], segment_counts = (\<lambda>i. [])\<rparr>"

text \<open>Two indices, the second closed.\<close>

definition il_open_closed :: index_list where
  "il_open_closed = \<lparr>il_client = 0, indices = [''a'', ''b''], closed_indices = [''b''],
                      segment_counts = (\<lambda>i. [])\<rparr>"

definition il_empty :: index_list where
  "il_empty = \<lparr>il_client = 0, indices = [], closed_indices = [], segment_counts = (\<lambda>i. [])\<rparr>"

text \<open>One index whose two shards have one segment each, and one closed index.\<close>

definition il_merged :: index_list where
  "il_merged = \<lparr>il_client = 0, indices = [''a''], closed_indices = [],
                 segment_counts = (\<lambda>i. [1, 1])\<rparr>"

definition il_closed :: index_list where
  "il_closed = \<lparr>il_client = 0, indices = [''b''], closed_indices = [''b''],
                 segment_counts = (\<lambda>i. [])\<rparr>"

text \<open>A cluster with no snapshot in progress, and one where a snapshot is always running.\<close>

definition idle_cluster :: cluster where
  "idle_cluster t c q =
     (case q of
        SnapshotRunning \<Rightarrow> Inr (Flag False)
      | RepositoryExists r \<Rightarrow> Inr (Flag True)
      | InProgressPoll r \<Rightarrow> Inr (Flag False)
      | SnapshotGet r n \<Rightarrow> Inr (SnapshotStates [''SUCCESS''])
      | GetIndices \<Rightarrow> Inr (Names [])
      | _ \<Rightarrow> Inr Ack)"

definition busy_cluster :: cluster where
  "busy_cluster t c q =
     (case q of
        SnapshotRunning \<Rightarrow> Inr (Flag True)
      | InProgressPoll r \<Rightarrow> Inr (Flag True)
      | RepositoryExists r \<Rightarrow> Inr (Flag True)
      | _ \<Rightarrow> Inr Ack)"

definition snap_obj :: snapshot_obj where
  "snap_obj = \<lparr>sn_name = ''snap-1'', sn_client = 0, sn_repository = ''repo'',
     wait_for_completion = False, skip_repo_fs_check = False,
     sn_body = create_snapshot_body [''logs-1''] False True False\<rparr>"

text \<open>Two collections with different clients, for an alias.\<close>

definition il_A :: index_list where
  "il_A = \<lparr>il_client = 7, indices = [''new-1'', ''new-2''], closed_indices = [],
            segment_counts = (\<lambda>i. [])\<rparr>"

definition il_B :: index_list where
  "il_B = \<lparr>il_client = 8, indices = [''old-1''], closed_indices = [], segment_counts = (\<lambda>i. [])\<rparr>"

text \<open>
  A snapshot deletion with three snapshots, and a cluster whose repository is free but
  which refuses to delete the snapshot \<open>s2\<close>.
\<close>

definition ds_obj :: delete_snapshots_obj where
  "ds_obj = \<lparr>ds_client = 0, retry_interval = 120, retry_count = 3,
     ds_snapshot_list = \<lparr>sl_client = 0, snapshots = [''s1'', ''s2'', ''s3''], sl_repository = ''repo''\<rparr>,
     ds_repository = ''repo''\<rparr>"

definition refuse_s2 :: cluster where
  "refuse_s2 t c q =
     (case q of
        InProgressPoll r \<Rightarrow> Inr (Flag False)
      | SnapshotDelete r s \<Rightarrow> (if s = ''s2'' then Inl (TransportError ''404'') else Inr Ack)
      | _ \<Rightarrow> Inr Ack)"

text \<open>A deletion of five indices in one chunk.\<close>

definition di_obj :: delete_indices_obj where
  "di_obj = \<lparr>di_index_list = \<lparr>il_client = 0, indices = [''a'', ''b'', ''c'', ''d'', ''e''],
                closed_indices = [], segment_counts = (\<lambda>i. [])\<rparr>,
              di_client = 0, master_timeout = ''30s''\<rparr>"

text \<open>
  After the first delete call the cluster still reports d and e (and an index z that is
  not of the chunk); after the second it reports only z.
\<close>

definition converge2 :: cluster where
  "converge2 t c q =
     (case q of
        GetIndices \<Rightarrow> Inr (Names (if length (delete_calls t) < 2 then [''d'', ''e'', ''z''] else [''z'']))
      | _ \<Rightarrow> Inr Ack)"

text \<open>A cluster that acknowledges every delete call and keeps reporting the index a.\<close>

definition stuck_cluster :: cluster where
  "stuck_cluster t c q = (case q of GetIndices \<Rightarrow> Inr (Names [''a'', ''z'']) | _ \<Rightarrow> Inr Ack)"

section \<open>Properties\<close>

subsection \<open>Programs and traces\<close>

lemmas prog_defs = ret_def raise_def bnd_def thn_def try_except_def request_def loggit_def
  sleep_def invoke_def empty_list_check_def report_failure_def

lemma requests_append: "requests (t @ es) = requests t @ requests es"
  by (induction t rule: requests.induct) simp_all

text \<open>
  A loop whose body sends exactly one request, whatever the answer: the loop sends the
  requests of a prefix of the list, in order, and of the whole list when it returns.
\<close>

lemma for_each_requests:
  assumes "\<And>x t. requests (snd (body x t)) = requests t @ [g x]"
  shows "\<exists>k\<le>length xs. requests (snd (for_each xs body t)) = requests t @ map g (take k xs)
           \<and> (fst (for_each xs body t) = Inr () \<longrightarrow> k = length xs) \<and> (xs \<noteq> [] \<longrightarrow> 0 < k)"
proof (induction xs arbitrary: t)
  case Nil
  show ?case by (simp add: ret_def)
next
  case (Cons x xs)
  obtain r t1 where b: "body x t = (r, t1)" by (cases "body x t")
  have rq: "requests t1 = requests t @ [g x]" using assms[of x t] b by simp
  show ?case
  proof (cases r)
    case (Inl e)
    then have "for_each (x # xs) body t = (Inl e, t1)" using b by (simp add: thn_def bnd_def)
    then show ?thesis using rq by (intro exI[of _ 1]) simp
  next
    case (Inr u)
    then have f: "for_each (x # xs) body t = for_each xs body t1"
      using b by (simp add: thn_def bnd_def)
    from Cons.IH[of t1] obtain k where k: "k \<le> length xs"
      "requests (snd (for_each xs body t1)) = requests t1 @ map g (take k xs)"
      "fst (for_each xs body t1) = Inr () \<longrightarrow> k = length xs" by blast
    show ?thesis using k rq f by (intro exI[of _ "Suc k"]) simp
  qed
qed

lemma requests_invoke: "requests (snd (invoke cl c q t)) = requests t @ [(c, q)]"
  by (simp add: prog_defs requests_append split: sum.splits)

lemma requests_try_report:
  "requests (snd (try_except m report_failure t)) = requests (snd (m t))"
  by (simp add: prog_defs requests_append split: prod.splits sum.splits)

lemma fst_try_report:
  "(fst (try_except m report_failure t) = Inr ()) = (fst (m t) = Inr ())"
  by (simp add: prog_defs split: prod.splits sum.splits)

lemma str_int_0: "str_int 0 = ''0''"
  by (simp add: str_int_def str_nat.simps[of 0] digit_char_def)

subsection \<open>Chunking\<close>

lemma concat_chunk_from: "concat (chunk_from mc ms cur xs) = cur @ xs"
  by (induction xs arbitrary: cur) (simp_all add: close_chunk_def)

text \<open>
  The invariant of the accumulation: the current chunk is empty, within both bounds, or
  a single element that alone exceeds the size bound.
\<close>

lemma chunk_from_bounds:
  assumes "0 < mc"
    and "cur = [] \<or> fits mc ms cur \<or> (\<exists>x. cur = [x] \<and> ms < serialized_length [x])"
    and "c \<in> set (chunk_from mc ms cur xs)"
  shows "c \<noteq> [] \<and> (fits mc ms c \<or> (\<exists>x. c = [x] \<and> ms < serialized_length [x]))"
  using assms(2,3)
proof (induction xs arbitrary: cur)
  case Nil
  then show ?case by (auto simp: close_chunk_def split: if_splits)
next
  case (Cons x xs)
  show ?case
  proof (cases "fits mc ms (cur @ [x])")
    case True
    with Cons.prems(2) have "c \<in> set (chunk_from mc ms (cur @ [x]) xs)" by simp
    moreover have "cur @ [x] = [] \<or> fits mc ms (cur @ [x])
        \<or> (\<exists>y. cur @ [x] = [y] \<and> ms < serialized_length [y])"
      using True by simp
    ultimately show ?thesis by (rule Cons.IH[rotated])
  next
    case False
    with Cons.prems(2) have "c \<in> set (close_chunk cur) \<or> c \<in> set (chunk_from mc ms [x] xs)"
      by simp
    then show ?thesis
    proof
      assume "c \<in> set (close_chunk cur)"
      then have "c = cur" "cur \<noteq> []" by (auto simp: close_chunk_def split: if_splits)
      with Cons.prems(1) show ?thesis by simp
    next
      assume c: "c \<in> set (chunk_from mc ms [x] xs)"
      have "[x] = [] \<or> fits mc ms [x] \<or> (\<exists>y. [x] = [y] \<and> ms < serialized_length [y])"
        using assms(1) by (auto simp: fits_def)
      then show ?thesis using c by (rule Cons.IH)
    qed
  qed
qed

text \<open>
  Claim C9. For every identifier sequence and every pair of bounds with a count bound of
  at least one, the chunks of \<open>chunk_index_list_bounded\<close> concatenated in order are the
  input sequence (nothing omitted, duplicated or reordered); no chunk is empty; every
  chunk is within the count bound and the bound on the serialized length, or is a single
  element whose own serialized length exceeds the size bound. The same holds of
  \<open>chunk_index_list\<close>, the chunking with the default bounds that the bulk actions call.
  Chunking is a function of its arguments, so it is deterministic.
\<close>

theorem chunk_index_list_partition:
  assumes "0 < max_count"
  shows "concat (chunk_index_list_bounded max_count max_size xs) = xs \<and>
         (\<forall>c \<in> set (chunk_index_list_bounded max_count max_size xs).
            c \<noteq> [] \<and>
            (fits max_count max_size c \<or> (\<exists>x. c = [x] \<and> max_size < serialized_length [x]))) \<and>
         concat (chunk_index_list xs) = xs \<and>
         (\<forall>c \<in> set (chunk_index_list xs).
            c \<noteq> [] \<and>
            (fits default_max_count default_max_size c \<or>
             (\<exists>x. c = [x] \<and> default_max_size < serialized_length [x])))"
proof -
  have d: "0 < default_max_count" by (simp add: default_max_count_def)
  show ?thesis
    unfolding chunk_index_list_def chunk_index_list_bounded_def
    using chunk_from_bounds[OF assms, of "[]" max_size _ xs]
      chunk_from_bounds[OF d, of "[]" default_max_size _ xs]
    by (simp add: concat_chunk_from)
qed

theorem chunk_index_list_partition_witness:
  "(0::nat) < 2 \<and>
   chunk_index_list_bounded 2 5 [''ab'', ''cd'', ''efghijk'', ''l''] =
     [[''ab'', ''cd''], [''efghijk''], [''l'']] \<and>
   concat (chunk_index_list_bounded 2 5 [''ab'', ''cd'', ''efghijk'', ''l'']) =
     [''ab'', ''cd'', ''efghijk'', ''l''] \<and>
   fits 2 5 [''ab'', ''cd''] \<and> \<not> fits 2 5 [''efghijk''] \<and> 5 < serialized_length [''efghijk''] \<and>
   fits 2 5 [''l'']"
  using chunk_index_list_partition[of 2 5 "[''ab'', ''cd'', ''efghijk'', ''l'']"]
  by (simp add: chunk_index_list_bounded_def fits_def serialized_length_def close_chunk_def)

subsection \<open>Constructors\<close>

text \<open>
  Claim C7. Constructing \<open>Allocation\<close> with a missing key, a missing value or an
  allocation type outside \<open>require\<close>, \<open>include\<close>, \<open>exclude\<close> raises, whatever the
  collection argument is, and leaves the trace as it was: no request is sent and nothing
  is logged. With a collection of the right type the exception is the missing-argument
  error for the key, then for the value, then the value error for the type.
  Constructing \<open>ForceMerge\<close> with no \<open>max_num_segments\<close> raises the same way; with a
  collection of the right type the exception is the missing-argument error.
\<close>

theorem constructor_validation:
  "(\<not> truthy_str key \<or> \<not> truthy_str val \<or> allocation_type \<notin> {''require'', ''include'', ''exclude''}
      \<longrightarrow> (\<exists>e. Allocation_init ilo key val allocation_type t = (Inl e, t))) \<and>
   (truthy_str key \<and> truthy_str val \<and> allocation_type \<notin> {''require'', ''include'', ''exclude''}
      \<longrightarrow> (\<exists>m. Allocation_init (IndexList il) key val allocation_type t = (Inl (ValueError m), t))) \<and>
   (\<not> truthy_str key
      \<longrightarrow> Allocation_init (IndexList il) key val allocation_type t
            = (Inl (MissingArgument ''No value for \"key\" provided''), t)) \<and>
   (truthy_str key \<and> \<not> truthy_str val
      \<longrightarrow> Allocation_init (IndexList il) key val allocation_type t
            = (Inl (MissingArgument ''No value for \"value\" provided''), t)) \<and>
   (\<exists>e. ForceMerge_init ilo None delay_arg t = (Inl e, t)) \<and>
   ForceMerge_init (IndexList il) None delay_arg t
     = (Inl (MissingArgument ''Missing value for \"max_num_segments\"''), t)"
proof -
  have a: "\<exists>e. Allocation_init ilo key val allocation_type t = (Inl e, t)"
    if "\<not> truthy_str key \<or> \<not> truthy_str val
        \<or> allocation_type \<notin> {''require'', ''include'', ''exclude''}"
    using that by (cases ilo) (auto simp: Allocation_init_def raise_def)
  have f: "\<exists>e. ForceMerge_init ilo None delay_arg t = (Inl e, t)"
    by (cases ilo) (auto simp: ForceMerge_init_def raise_def)
  show ?thesis using a f
    by (auto simp: Allocation_init_def ForceMerge_init_def raise_def)
qed

theorem constructor_validation_witness:
  "Allocation_init (IndexList il0) (Some ''rack'') (Some ''r1'') ''invalid'' [] =
     (Inl (ValueError ''invalid is an invalid allocation_type.  Must be one of \"require\", \"include\", \"exclude\".''), []) \<and>
   Allocation_init (IndexList il0) None (Some ''r1'') ''require'' [] =
     (Inl (MissingArgument ''No value for \"key\" provided''), []) \<and>
   Allocation_init (IndexList il0) (Some ''rack'') None ''require'' [] =
     (Inl (MissingArgument ''No value for \"value\" provided''), []) \<and>
   ForceMerge_init (IndexList il0) None 0 [] =
     (Inl (MissingArgument ''Missing value for \"max_num_segments\"''), []) \<and>
   fst (Allocation_init (IndexList il0) (Some ''rack'') (Some ''r1'') ''require'' []) =
     Inr \<lparr>alloc_index_list = il0, alloc_client = 0,
          alloc_body = ''index.routing.allocation.require.rack=r1''\<rparr>"
  using constructor_validation[of "Some ''rack''" "Some ''r1''" "''invalid''" "IndexList il0" "[]" il0 0]
    constructor_validation[of None "Some ''r1''" "''require''" "IndexList il0" "[]" il0 0]
    constructor_validation[of "Some ''rack''" None "''require''" "IndexList il0" "[]" il0 0]
  by (simp add: Allocation_init_def raise_def ret_def il0_def)

text \<open>
  Claim C10. Constructing \<open>Replicas\<close> with a count of zero succeeds, and sends and logs
  nothing. Its \<open>do_action\<close> on a non-empty collection sends only \<open>put_settings\<close>
  requests with the body \<open>number_of_replicas=0\<close>, one per chunk of the open indices, in
  order: those of all the chunks when it returns, and at least one when there is a chunk.
  Constructing \<open>Replicas\<close> with no count raises, the missing-argument error when the
  collection is of the right type, and sends and logs nothing.
\<close>

theorem Replicas_zero_count:
  "Replicas_init (IndexList il) (Some 0) t
     = (Inr \<lparr>rep_client = il_client il, rep_index_list = il, rep_count = 0\<rparr>, t) \<and>
   (\<exists>e. Replicas_init ilo None t = (Inl e, t)) \<and>
   Replicas_init (IndexList il) None t = (Inl (MissingArgument ''Missing value for \"count\"''), t) \<and>
   (indices il \<noteq> [] \<longrightarrow>
     (\<exists>k \<le> length (chunk_index_list (indices (filter_closed il))).
        requests (snd (Replicas_do_action cl
                   \<lparr>rep_client = il_client il, rep_index_list = il, rep_count = 0\<rparr> t))
          = requests t @ map (\<lambda>l. (il_client il, PutSettings (to_csv l) ''number_of_replicas=0''))
                           (take k (chunk_index_list (indices (filter_closed il)))) \<and>
        (fst (Replicas_do_action cl
               \<lparr>rep_client = il_client il, rep_index_list = il, rep_count = 0\<rparr> t) = Inr ()
           \<longrightarrow> k = length (chunk_index_list (indices (filter_closed il)))) \<and>
        (chunk_index_list (indices (filter_closed il)) \<noteq> [] \<longrightarrow> 0 < k)))"
proof -
  have i: "\<exists>e. Replicas_init ilo None t = (Inl e, t)"
    by (cases ilo) (auto simp: Replicas_init_def raise_def)
  let ?self = "\<lparr>rep_client = il_client il, rep_index_list = il, rep_count = 0\<rparr>"
  let ?chunks = "chunk_index_list (indices (filter_closed il))"
  let ?body = "\<lambda>l. invoke cl (il_client il) (PutSettings (to_csv l) ''number_of_replicas=0'')"
  let ?t1 = "t @ [Log Info ''Cannot get update replica count of closed indices.  Omitting any closed indices.'' [],
                  Log Info ''Updating the replica count of selected indices to {0}'' [AInt 0]]"
  have d: "Replicas_do_action cl ?self t = try_except (for_each ?chunks ?body) report_failure ?t1"
    if "indices il \<noteq> []"
    using that by (simp add: Replicas_do_action_def Let_def str_int_0 ret_def raise_def bnd_def
        thn_def loggit_def empty_list_check_def split: prod.splits sum.splits)
  have rt: "requests ?t1 = requests t" by (simp add: requests_append)
  from for_each_requests[of ?body
      "\<lambda>l. (il_client il, PutSettings (to_csv l) ''number_of_replicas=0'')" ?chunks ?t1]
  obtain k where k: "k \<le> length ?chunks"
    "requests (snd (for_each ?chunks ?body ?t1)) = requests ?t1 @
       map (\<lambda>l. (il_client il, PutSettings (to_csv l) ''number_of_replicas=0'')) (take k ?chunks)"
    "fst (for_each ?chunks ?body ?t1) = Inr () \<longrightarrow> k = length ?chunks"
    "?chunks \<noteq> [] \<longrightarrow> 0 < k"
    using requests_invoke by blast
  have "indices il \<noteq> [] \<longrightarrow>
     (\<exists>k \<le> length ?chunks.
        requests (snd (Replicas_do_action cl ?self t))
          = requests t @ map (\<lambda>l. (il_client il, PutSettings (to_csv l) ''number_of_replicas=0''))
                           (take k ?chunks) \<and>
        (fst (Replicas_do_action cl ?self t) = Inr () \<longrightarrow> k = length ?chunks) \<and>
        (?chunks \<noteq> [] \<longrightarrow> 0 < k))"
    using k rt by (auto simp: d requests_try_report fst_try_report intro!: exI[of _ k])
  then show ?thesis using i
    by (simp add: Replicas_init_def raise_def ret_def)
qed

lemma chunk_single: "chunk_index_list [''a''] = [[''a'']]"
  by (simp add: chunk_index_list_def chunk_index_list_bounded_def fits_def serialized_length_def
      close_chunk_def default_max_count_def default_max_size_def)

theorem Replicas_zero_count_witness:
  "Replicas_init (IndexList il_open_closed) (Some 0) [] =
     (Inr \<lparr>rep_client = 0, rep_index_list = il_open_closed, rep_count = 0\<rparr>, []) \<and>
   Replicas_init (IndexList il_open_closed) None [] =
     (Inl (MissingArgument ''Missing value for \"count\"''), []) \<and>
   indices il_open_closed \<noteq> [] \<and>
   requests (snd (Replicas_do_action ok_cluster
       \<lparr>rep_client = 0, rep_index_list = il_open_closed, rep_count = 0\<rparr> [])) =
     [(0, PutSettings ''a'' ''number_of_replicas=0'')] \<and>
   fst (Replicas_do_action ok_cluster
       \<lparr>rep_client = 0, rep_index_list = il_open_closed, rep_count = 0\<rparr> []) = Inr ()"
  using Replicas_zero_count[of il_open_closed "[]" "IndexList il_open_closed" ok_cluster]
  by (simp add: Replicas_init_def Replicas_do_action_def prog_defs il_open_closed_def
      filter_closed_def chunk_single str_int_0 ok_cluster_def)

lemma chunk_index_list_Nil: "chunk_index_list [] = []"
  by (simp add: chunk_index_list_def chunk_index_list_bounded_def close_chunk_def)

subsection \<open>Guards\<close>

text \<open>
  Claim C2. When \<open>Snapshot.do_action\<close> reaches the snapshot-in-progress check (the
  check of the repository filesystem is skipped, or the cluster answers it without an
  exception) and the check reports a running snapshot, \<open>do_action\<close> raises
  \<open>SnapshotInProgress\<close>. The trace then holds, beyond what it held before, the
  filesystem check (when not skipped) and the in-progress check: no request to create a
  snapshot is sent.
\<close>

theorem Snapshot_in_progress:
  assumes "t1 = (if skip_repo_fs_check self then t
                 else t @ [Request (sn_client self) (TestRepoFs (sn_repository self))])"
    and "skip_repo_fs_check self \<or> (\<exists>r. cl t (sn_client self) (TestRepoFs (sn_repository self)) = Inr r)"
    and "cl t1 (sn_client self) SnapshotRunning = Inr (Flag True)"
  shows "Snapshot_do_action cl self t =
           (Inl (SnapshotInProgress ''Snapshot already in progress.''),
            t1 @ [Request (sn_client self) SnapshotRunning]) \<and>
         filter is_snapshot_create (t1 @ [Request (sn_client self) SnapshotRunning])
           = filter is_snapshot_create t"
  using assms
  by (auto simp: Snapshot_do_action_def test_repo_fs_def snapshot_running_def expect_flag_def prog_defs)

theorem Snapshot_in_progress_witness:
  "Snapshot_do_action busy_cluster snap_obj [] =
     (Inl (SnapshotInProgress ''Snapshot already in progress.''),
      [Request 0 (TestRepoFs ''repo''), Request 0 SnapshotRunning]) \<and>
   filter is_snapshot_create [Request 0 (TestRepoFs ''repo''), Request 0 SnapshotRunning] = []"
  using Snapshot_in_progress[of "[Request 0 (TestRepoFs ''repo'')]" snap_obj "[]" busy_cluster]
  by (simp add: snap_obj_def busy_cluster_def)

text \<open>
  Claim C3, as the code has it. For \<open>Allocation\<close>, \<open>Close\<close>, \<open>Open\<close>,
  \<open>DeleteIndices\<close>, \<open>Replicas\<close>, \<open>ForceMerge\<close> and \<open>DeleteSnapshots\<close>,
  \<open>do_action\<close> on an empty collection raises the empty-collection error and sends no
  request. An \<open>Alias\<close> holds no collection when \<open>do_action\<close> runs: its guard is in
  \<open>add\<close> and \<open>remove\<close>, which on an empty collection raise the empty-collection
  error, send and log nothing, and leave the accumulated operations as they were.
\<close>

theorem empty_collection_guard:
  "(indices (alloc_index_list a) = [] \<longrightarrow>
      fst (Allocation_do_action cl a t) = Inl EmptyCollectionError \<and>
      requests (snd (Allocation_do_action cl a t)) = requests t) \<and>
   (indices (close_index_list c) = [] \<longrightarrow>
      fst (Close_do_action cl c t) = Inl EmptyCollectionError \<and>
      requests (snd (Close_do_action cl c t)) = requests t) \<and>
   (indices (open_index_list ob) = [] \<longrightarrow>
      fst (Open_do_action cl ob t) = Inl EmptyCollectionError \<and>
      requests (snd (Open_do_action cl ob t)) = requests t) \<and>
   (indices (di_index_list d) = [] \<longrightarrow>
      fst (DeleteIndices_do_action cl d t) = Inl EmptyCollectionError \<and>
      requests (snd (DeleteIndices_do_action cl d t)) = requests t) \<and>
   (indices (rep_index_list r) = [] \<longrightarrow>
      fst (Replicas_do_action cl r t) = Inl EmptyCollectionError \<and>
      requests (snd (Replicas_do_action cl r t)) = requests t) \<and>
   (indices (fm_index_list f) = [] \<longrightarrow>
      fst (ForceMerge_do_action cl f t) = Inl EmptyCollectionError \<and>
      requests (snd (ForceMerge_do_action cl f t)) = requests t) \<and>
   (snapshots (ds_snapshot_list ds) = [] \<longrightarrow>
      fst (DeleteSnapshots_do_action cl ds t) = Inl EmptyCollectionError \<and>
      requests (snd (DeleteSnapshots_do_action cl ds t)) = requests t) \<and>
   (indices il = [] \<longrightarrow>
      Alias_add self (IndexList il) t = (Inl EmptyCollectionError, bind_client self il, t) \<and>
      Alias_remove self (IndexList il) t = (Inl EmptyCollectionError, bind_client self il, t) \<and>
      actions (bind_client self il) = actions self)"
  by (auto simp: Allocation_do_action_def Close_do_action_def Open_do_action_def
      DeleteIndices_do_action_def Replicas_do_action_def ForceMerge_do_action_def
      DeleteSnapshots_do_action_def Alias_add_def Alias_remove_def bind_client_def
      filter_closed_def Let_def prog_defs requests_append)

theorem empty_collection_guard_witness:
  "fst (Open_do_action ok_cluster \<lparr>open_client = 0, open_index_list = il_empty\<rparr> [])
     = Inl EmptyCollectionError \<and>
   requests (snd (Open_do_action ok_cluster \<lparr>open_client = 0, open_index_list = il_empty\<rparr> [])) = [] \<and>
   fst (DeleteIndices_do_action ok_cluster
          \<lparr>di_index_list = il_empty, di_client = 0, master_timeout = ''30s''\<rparr> [])
     = Inl EmptyCollectionError \<and>
   fst (Allocation_do_action ok_cluster
          \<lparr>alloc_index_list = il_empty, alloc_client = 0,
           alloc_body = ''index.routing.allocation.require.rack=r1''\<rparr> [])
     = Inl EmptyCollectionError \<and>
   fst (Close_do_action ok_cluster \<lparr>close_index_list = il_empty, close_client = 0\<rparr> [])
     = Inl EmptyCollectionError \<and>
   fst (Replicas_do_action ok_cluster \<lparr>rep_client = 0, rep_index_list = il_empty, rep_count = 1\<rparr> [])
     = Inl EmptyCollectionError \<and>
   fst (ForceMerge_do_action ok_cluster
          \<lparr>fm_client = 0, fm_index_list = il_empty, max_num_segments = 1, delay = 0\<rparr> [])
     = Inl EmptyCollectionError \<and>
   fst (DeleteSnapshots_do_action ok_cluster
          \<lparr>ds_client = 0, retry_interval = 120, retry_count = 3,
           ds_snapshot_list = \<lparr>sl_client = 0, snapshots = [], sl_repository = ''repo''\<rparr>,
           ds_repository = ''repo''\<rparr> [])
     = Inl EmptyCollectionError \<and>
   Alias_add \<lparr>alias_name = ''logs'', actions = [], al_client = None\<rparr> (IndexList il_empty) []
     = (Inl EmptyCollectionError, \<lparr>alias_name = ''logs'', actions = [], al_client = Some 0\<rparr>, [])"
  using empty_collection_guard[of
      "\<lparr>alloc_index_list = il_empty, alloc_client = 0, alloc_body = ''index.routing.allocation.require.rack=r1''\<rparr>"
      ok_cluster "[]" "\<lparr>close_index_list = il_empty, close_client = 0\<rparr>"
      "\<lparr>open_client = 0, open_index_list = il_empty\<rparr>"
      "\<lparr>di_index_list = il_empty, di_client = 0, master_timeout = ''30s''\<rparr>"
      "\<lparr>rep_client = 0, rep_index_list = il_empty, rep_count = 1\<rparr>"
      "\<lparr>fm_client = 0, fm_index_list = il_empty, max_num_segments = 1, delay = 0\<rparr>"
      "\<lparr>ds_client = 0, retry_interval = 120, retry_count = 3,
           ds_snapshot_list = \<lparr>sl_client = 0, snapshots = [], sl_repository = ''repo''\<rparr>,
           ds_repository = ''repo''\<rparr>"
      il_empty "\<lparr>alias_name = ''logs'', actions = [], al_client = None\<rparr>"]
  by (simp add: il_empty_def bind_client_def)

text \<open>
  The claim C3 as stated fails for \<open>Alias\<close> and for \<open>Snapshot\<close>. After \<open>add\<close> has
  refused an empty collection, \<open>Alias.do_action\<close> raises the execution failure that
  wraps the action error of \<open>body\<close>, not the empty-collection error. A \<open>Snapshot\<close>
  built on an empty collection runs: \<open>do_action\<close> has no guard, sends the in-progress
  check and the request that creates the snapshot, and returns.
\<close>

theorem empty_collection_guard_counterexample:
  "Alias_add \<lparr>alias_name = ''logs'', actions = [], al_client = None\<rparr> (IndexList il_empty) []
     = (Inl EmptyCollectionError, \<lparr>alias_name = ''logs'', actions = [], al_client = Some 0\<rparr>, []) \<and>
   fst (Alias_do_action ok_cluster \<lparr>alias_name = ''logs'', actions = [], al_client = Some 0\<rparr> [])
     = Inl (FailedExecution ''Exception encountered.''
             (Some (ActionError ''No \"add\" or \"remove\" operations''))) \<and>
   fst (Alias_do_action ok_cluster \<lparr>alias_name = ''logs'', actions = [], al_client = Some 0\<rparr> [])
     \<noteq> Inl EmptyCollectionError \<and>
   fst (Snapshot_init idle_cluster Inr (IndexList il_empty) (Some ''repo'') (Some ''snap-1'')
          False True False False True [])
     = Inr \<lparr>sn_name = ''snap-1'', sn_client = 0, sn_repository = ''repo'',
            wait_for_completion = False, skip_repo_fs_check = True,
            sn_body = create_snapshot_body [] False True False\<rparr> \<and>
   Snapshot_do_action idle_cluster
       \<lparr>sn_name = ''snap-1'', sn_client = 0, sn_repository = ''repo'',
        wait_for_completion = False, skip_repo_fs_check = True,
        sn_body = create_snapshot_body [] False True False\<rparr> []
     = (Inr (),
        [Request 0 SnapshotRunning,
         Request 0 (SnapshotCreate ''repo'' ''snap-1'' (create_snapshot_body [] False True False) False),
         Log Warn ''\"wait_for_completion\" set to {0}. Remember to check for successful completion manually.''
           [ABool False]])"
  by (simp add: Alias_add_def Alias_do_action_def Alias_body_def bind_client_def il_empty_def
      Snapshot_init_def Snapshot_do_action_def repository_exists_def snapshot_running_def
      expect_flag_def idle_cluster_def ok_cluster_def prog_defs)

text \<open>
  Claim C4 at \<open>Replicas\<close> and \<open>ForceMerge\<close>: the guard runs before the filter and is
  not applied again. When the filter empties a non-empty collection, \<open>do_action\<close>
  returns without an exception (and, here, without a request). \<open>Allocation\<close> and
  \<open>Close\<close> filter first and then apply the guard, so they raise the empty-collection
  error and send no request.
\<close>

theorem guard_after_filter:
  "(indices (filter_closed (alloc_index_list a)) = [] \<longrightarrow>
      fst (Allocation_do_action cl a t) = Inl EmptyCollectionError \<and>
      requests (snd (Allocation_do_action cl a t)) = requests t) \<and>
   (indices (filter_closed (close_index_list c)) = [] \<longrightarrow>
      fst (Close_do_action cl c t) = Inl EmptyCollectionError \<and>
      requests (snd (Close_do_action cl c t)) = requests t) \<and>
   (indices (rep_index_list r) \<noteq> [] \<and> indices (filter_closed (rep_index_list r)) = [] \<longrightarrow>
      Replicas_do_action cl r t =
        (Inr (), t @ [Log Info ''Cannot get update replica count of closed indices.  Omitting any closed indices.'' [],
                      Log Info ''Updating the replica count of selected indices to {0}'' [AInt (rep_count r)]])) \<and>
   (indices (fm_index_list f) \<noteq> [] \<and>
    indices (filter_forceMerged (max_num_segments f) (fm_index_list f)) = [] \<longrightarrow>
      ForceMerge_do_action cl f t = (Inr (), t @ [Log Info ''forceMerging selected indices'' []]))"
  by (auto simp: Allocation_do_action_def Close_do_action_def Replicas_do_action_def
      ForceMerge_do_action_def Let_def prog_defs requests_append chunk_index_list_Nil)

theorem guard_after_filter_witness:
  "fst (ForceMerge_init (IndexList il_merged) (Some 1) 0 []) =
     Inr \<lparr>fm_client = 0, fm_index_list = il_merged, max_num_segments = 1, delay = 0\<rparr> \<and>
   indices il_merged = [''a''] \<and>
   ForceMerge_do_action ok_cluster
       \<lparr>fm_client = 0, fm_index_list = il_merged, max_num_segments = 1, delay = 0\<rparr> [] =
     (Inr (), [Log Info ''forceMerging selected indices'' []]) \<and>
   fst (Replicas_init (IndexList il_closed) (Some 2) []) =
     Inr \<lparr>rep_client = 0, rep_index_list = il_closed, rep_count = 2\<rparr> \<and>
   indices il_closed = [''b''] \<and>
   Replicas_do_action ok_cluster \<lparr>rep_client = 0, rep_index_list = il_closed, rep_count = 2\<rparr> [] =
     (Inr (), [Log Info ''Cannot get update replica count of closed indices.  Omitting any closed indices.'' [],
               Log Info ''Updating the replica count of selected indices to {0}'' [AInt 2]]) \<and>
   fst (Allocation_do_action ok_cluster
          \<lparr>alloc_index_list = il_closed, alloc_client = 0,
           alloc_body = ''index.routing.allocation.require.rack=r1''\<rparr> []) = Inl EmptyCollectionError \<and>
   fst (Close_do_action ok_cluster \<lparr>close_index_list = il_closed, close_client = 0\<rparr> [])
     = Inl EmptyCollectionError"
  using guard_after_filter[of
      "\<lparr>alloc_index_list = il_closed, alloc_client = 0, alloc_body = ''index.routing.allocation.require.rack=r1''\<rparr>"
      ok_cluster "[]" "\<lparr>close_index_list = il_closed, close_client = 0\<rparr>"
      "\<lparr>rep_client = 0, rep_index_list = il_closed, rep_count = 2\<rparr>"
      "\<lparr>fm_client = 0, fm_index_list = il_merged, max_num_segments = 1, delay = 0\<rparr>"]
  by (simp add: ForceMerge_init_def Replicas_init_def ret_def il_merged_def il_closed_def
      filter_closed_def filter_forceMerged_def)

text \<open>
  Claim C5 on the code: \<open>Alias.do_action\<close> with no accumulated operation sends no
  request, but the exception that leaves it is the uniform execution failure. With a
  client bound, the action error raised by \<open>body\<close> is raised inside the \<^verbatim>\<open>try\<close>
  and handed to \<open>report_failure\<close>; with no client bound, the attribute error is.
\<close>

theorem Alias_do_action_no_operations:
  "actions self = [] \<longrightarrow>
     Alias_do_action cl self t =
       (Inl (FailedExecution ''Exception encountered.''
          (Some (case al_client self of
                   None \<Rightarrow> AttributeError ''NoneType object has no attribute indices''
                 | Some c \<Rightarrow> ActionError ''No \"add\" or \"remove\" operations''))),
        t @ [Log Info ''Updating aliases...'' [], Log Error ''Exception encountered.'' []])"
  by (auto simp: Alias_do_action_def Alias_body_def prog_defs split: option.splits)

theorem Alias_do_action_no_operations_witness:
  "fst (Alias_init (Some ''logs'') []) = Inr \<lparr>alias_name = ''logs'', actions = [], al_client = None\<rparr> \<and>
   Alias_do_action ok_cluster \<lparr>alias_name = ''logs'', actions = [], al_client = None\<rparr> [] =
     (Inl (FailedExecution ''Exception encountered.''
            (Some (AttributeError ''NoneType object has no attribute indices''))),
      [Log Info ''Updating aliases...'' [], Log Error ''Exception encountered.'' []]) \<and>
   Alias_do_action ok_cluster \<lparr>alias_name = ''logs'', actions = [], al_client = Some 0\<rparr> [] =
     (Inl (FailedExecution ''Exception encountered.''
            (Some (ActionError ''No \"add\" or \"remove\" operations''))),
      [Log Info ''Updating aliases...'' [], Log Error ''Exception encountered.'' []])"
  using Alias_do_action_no_operations[of "\<lparr>alias_name = ''logs'', actions = [], al_client = None\<rparr>" ok_cluster "[]"]
    Alias_do_action_no_operations[of "\<lparr>alias_name = ''logs'', actions = [], al_client = Some 0\<rparr>" ok_cluster "[]"]
  by (simp add: Alias_init_def ret_def)

subsection \<open>Alias\<close>

lemma requests_logs: "requests (map (\<lambda>i. Log l m (f i)) xs) = []"
  by (induction xs) simp_all

lemma add_loop_eq:
  "add_loop xs self t =
     (self\<lparr>actions := actions self @ map (\<lambda>i. Add i (alias_name self)) xs\<rparr>,
      t @ map (\<lambda>i. Log Debug ''Adding index {0} to alias {1}'' [AStr i, AStr (alias_name self)]) xs)"
  by (induction xs arbitrary: self t) simp_all

lemma remove_loop_eq:
  "remove_loop xs self t =
     (self\<lparr>actions := actions self @ map (\<lambda>i. Remove i (alias_name self)) xs\<rparr>,
      t @ map (\<lambda>i. Log Debug ''Removing index {0} from alias {1}'' [AStr i, AStr (alias_name self)]) xs)"
  by (induction xs arbitrary: self t) simp_all

text \<open>
  Claim C6. For non-empty collections \<open>A\<close> and \<open>B\<close>, \<open>add(A)\<close> and then
  \<open>remove(B)\<close> both return, send no request, and leave in the object the operations
  it held before, then an add for each index of \<open>A\<close>, then a remove for each index of
  \<open>B\<close>, in the order of the collections. \<open>do_action\<close> then sends exactly one request,
  whatever the cluster answers: \<open>update_aliases\<close> with all those operations as its
  body, through the client bound first (that of \<open>A\<close> for a new object).
\<close>

theorem Alias_add_remove_single_request:
  assumes "indices A \<noteq> []" and "indices B \<noteq> []"
  shows "\<exists>self1 t1 self2 t2.
           Alias_add self (IndexList A) t = (Inr (), self1, t1) \<and>
           Alias_remove self1 (IndexList B) t1 = (Inr (), self2, t2) \<and>
           actions self2 = actions self @ map (\<lambda>i. Add i (alias_name self)) (indices A)
                                       @ map (\<lambda>i. Remove i (alias_name self)) (indices B) \<and>
           requests t2 = requests t \<and>
           requests (snd (Alias_do_action cl self2 t2)) =
             requests t @ [(case al_client self of None \<Rightarrow> il_client A | Some c \<Rightarrow> c,
                            UpdateAliases (actions self2))]"
  using assms
  by (auto simp: Alias_add_def Alias_remove_def Alias_do_action_def Alias_body_def bind_client_def
      working_list_def add_loop_eq remove_loop_eq prog_defs requests_append requests_logs
      split: option.splits sum.splits)

theorem Alias_add_remove_single_request_witness:
  "indices il_A \<noteq> [] \<and> indices il_B \<noteq> [] \<and>
   fst (Alias_init (Some ''current'') []) = Inr \<lparr>alias_name = ''current'', actions = [], al_client = None\<rparr> \<and>
   (case Alias_add \<lparr>alias_name = ''current'', actions = [], al_client = None\<rparr> (IndexList il_A) [] of
      (r1, self1, t1) \<Rightarrow>
        (case Alias_remove self1 (IndexList il_B) t1 of
           (r2, self2, t2) \<Rightarrow>
             r1 = Inr () \<and> r2 = Inr () \<and>
             requests (snd (Alias_do_action ok_cluster self2 t2)) =
               [(7, UpdateAliases [Add ''new-1'' ''current'', Add ''new-2'' ''current'',
                                   Remove ''old-1'' ''current''])] \<and>
             fst (Alias_do_action ok_cluster self2 t2) = Inr ()))"
  using Alias_add_remove_single_request[of il_A il_B
      "\<lparr>alias_name = ''current'', actions = [], al_client = None\<rparr>" "[]" ok_cluster]
  by (simp add: Alias_init_def Alias_add_def Alias_remove_def Alias_do_action_def Alias_body_def
      bind_client_def working_list_def prog_defs il_A_def il_B_def ok_cluster_def)

subsection \<open>DeleteSnapshots\<close>

lemma snapshot_delete_calls_append:
  "snapshot_delete_calls (t @ es) = snapshot_delete_calls t @ snapshot_delete_calls es"
  by (induction t rule: snapshot_delete_calls.induct) simp_all

lemma snapshot_delete_calls_poll_trace: "snapshot_delete_calls (poll_trace c r ri k) = []"
  by (induction c r ri k rule: poll_trace.induct) simp_all

lemma poll_trace_Suc:
  "0 < k \<Longrightarrow> poll_trace c r ri (Suc k) = Request c (InProgressPoll r) # Sleep ri # poll_trace c r ri k"
  by (cases k) simp_all

text \<open>
  The polls of \<open>safe_to_snap\<close>: at most \<open>n\<close> polls with the wait between them, all
  \<open>n\<close> of them when the answer is that the repository stayed busy.
\<close>

lemma poll_in_progress_run:
  "poll_in_progress cl c r ri n t = (res, t') \<Longrightarrow>
     \<exists>k\<le>n. t' = t @ poll_trace c r ri k \<and> (0 < n \<longrightarrow> 0 < k) \<and> (res = Inr False \<longrightarrow> k = n)"
proof (induction n arbitrary: t res t')
  case 0
  then show ?case by (simp add: ret_def)
next
  case (Suc n)
  let ?req = "Request c (InProgressPoll r)"
  show ?case
  proof (cases "cl t c (InProgressPoll r)")
    case (Inl e)
    with Suc.prems have "t' = t @ [?req]" "res = Inl e"
      by (auto simp: prog_defs)
    then show ?thesis by (intro exI[of _ 1]) simp
  next
    case (Inr a)
    show ?thesis
    proof (cases "a = Flag True \<and> 0 < n")
      case False
      with Inr Suc.prems have "t' = t @ [?req]" "res = Inr False \<longrightarrow> n = 0"
        by (auto simp: prog_defs expect_flag_def split: resp.splits if_splits)
      then show ?thesis by (intro exI[of _ 1]) simp
    next
      case True
      with Inr Suc.prems have p: "poll_in_progress cl c r ri n (t @ [?req, Sleep ri]) = (res, t')"
        by (auto simp: prog_defs expect_flag_def)
      from Suc.IH[OF p] True obtain k where k: "k \<le> n" "t' = (t @ [?req, Sleep ri]) @ poll_trace c r ri k"
        "0 < k" "res = Inr False \<longrightarrow> k = n" by blast
      show ?thesis using k by (intro exI[of _ "Suc k"]) (simp add: poll_trace_Suc)
    qed
  qed
qed

lemma block_log_invoke:
  "block [loggit l m as, invoke cl c q] t =
     (case cl (t @ [Log l m as]) c q of
        Inl e \<Rightarrow> (Inl e, t @ [Log l m as, Request c q])
      | Inr a \<Rightarrow> (Inr (), t @ [Log l m as, Request c q]))"
  by (simp add: prog_defs split: sum.splits)

lemma for_each_Cons_run:
  "for_each (x # xs) body t =
     (case body x t of (Inl e, t') \<Rightarrow> (Inl e, t') | (Inr u, t') \<Rightarrow> for_each xs body t')"
  by (simp add: thn_def bnd_def)

text \<open>The loop of the deletions: one request per snapshot, in order, up to the first exception.\<close>

lemma delete_loop_run:
  assumes body: "\<And>s t. body s t =
     (case cl (t @ [Log l m (as s)]) c (SnapshotDelete repo s) of
        Inl e \<Rightarrow> (Inl e, t @ [Log l m (as s), Request c (SnapshotDelete repo s)])
      | Inr a \<Rightarrow> (Inr (), t @ [Log l m (as s), Request c (SnapshotDelete repo s)]))"
  shows "for_each xs body t = (r, t') \<Longrightarrow>
   \<exists>j\<le>length xs. snapshot_delete_calls t' = snapshot_delete_calls t @ take j xs \<and>
     (r = Inr () \<and> j = length xs \<or>
      (\<exists>e tj. r = Inl e \<and> 0 < j \<and> cl tj c (SnapshotDelete repo (xs ! (j - 1))) = Inl e))"
proof (induction xs arbitrary: t r t')
  case Nil
  then show ?case by (simp add: ret_def)
next
  case (Cons x xs)
  let ?t1 = "t @ [Log l m (as x)]"
  let ?t2 = "t @ [Log l m (as x), Request c (SnapshotDelete repo x)]"
  note bx = body[of x t]
  show ?case
  proof (cases "cl ?t1 c (SnapshotDelete repo x)")
    case (Inl e)
    with Cons.prems have "r = Inl e" "t' = ?t2"
      by (simp_all add: for_each_Cons_run bx del: for_each.simps)
    then show ?thesis using Inl by (intro exI[of _ 1]) (auto simp: snapshot_delete_calls_append)
  next
    case (Inr a)
    with Cons.prems have "for_each xs body ?t2 = (r, t')"
      by (simp add: for_each_Cons_run bx del: for_each.simps)
    from Cons.IH[OF this] obtain j where j: "j \<le> length xs"
      "snapshot_delete_calls t' = snapshot_delete_calls ?t2 @ take j xs"
      "r = Inr () \<and> j = length xs \<or>
        (\<exists>e tj. r = Inl e \<and> 0 < j \<and> cl tj c (SnapshotDelete repo (xs ! (j - 1))) = Inl e)"
      by blast
    show ?thesis using j
      by (intro exI[of _ "Suc j"]) (auto simp: snapshot_delete_calls_append)
  qed
qed

text \<open>
  The loop of the deletions, exactly: when the cluster accepts every delete call the loop
  returns after the requests for all the names; when the first call it refuses is the
  one at position \<open>j\<close>, the loop raises that exception right after that request.
\<close>

lemma snapshot_delete_calls_delete_trace: "snapshot_delete_calls (delete_trace c repo ss) = ss"
  by (induction ss) simp_all

lemma delete_answer_0:
  "delete_answer cl t c repo (x # xs) 0
     = cl (t @ [Log Info ''Deleting snapshot {0}...'' [AStr x]]) c (SnapshotDelete repo x)"
  by (simp add: delete_answer_def)

lemma delete_answer_Suc:
  "delete_answer cl t c repo (x # xs) (Suc i)
     = delete_answer cl (t @ [Log Info ''Deleting snapshot {0}...'' [AStr x],
                              Request c (SnapshotDelete repo x)]) c repo xs i"
  by (simp add: delete_answer_def)

lemma delete_loop_ok:
  assumes body: "\<And>s t. body s t =
     (case cl (t @ [Log Info ''Deleting snapshot {0}...'' [AStr s]]) c (SnapshotDelete repo s) of
        Inl e \<Rightarrow> (Inl e, t @ [Log Info ''Deleting snapshot {0}...'' [AStr s],
                                Request c (SnapshotDelete repo s)])
      | Inr a \<Rightarrow> (Inr (), t @ [Log Info ''Deleting snapshot {0}...'' [AStr s],
                                 Request c (SnapshotDelete repo s)]))"
  shows "\<forall>i<length xs. \<exists>a. delete_answer cl t c repo xs i = Inr a \<Longrightarrow>
         for_each xs body t = (Inr (), t @ delete_trace c repo xs)"
proof (induction xs arbitrary: t)
  case Nil
  show ?case by (simp add: ret_def)
next
  case (Cons x xs)
  let ?t2 = "t @ [Log Info ''Deleting snapshot {0}...'' [AStr x], Request c (SnapshotDelete repo x)]"
  note bx = body[of x t]
  from Cons.prems have "\<exists>a. delete_answer cl t c repo (x # xs) 0 = Inr a" by blast
  then obtain a where a: "cl (t @ [Log Info ''Deleting snapshot {0}...'' [AStr x]]) c
                            (SnapshotDelete repo x) = Inr a"
    by (auto simp: delete_answer_0)
  have "\<forall>i<length xs. \<exists>a. delete_answer cl ?t2 c repo xs i = Inr a"
  proof (intro allI impI)
    fix i assume "i < length xs"
    then have "Suc i < length (x # xs)" by simp
    with Cons.prems have "\<exists>a. delete_answer cl t c repo (x # xs) (Suc i) = Inr a" by blast
    then show "\<exists>a. delete_answer cl ?t2 c repo xs i = Inr a" by (simp add: delete_answer_Suc)
  qed
  from Cons.IH[OF this] a show ?case
    by (simp add: for_each_Cons_run bx del: for_each.simps)
qed

lemma delete_loop_fail:
  assumes body: "\<And>s t. body s t =
     (case cl (t @ [Log Info ''Deleting snapshot {0}...'' [AStr s]]) c (SnapshotDelete repo s) of
        Inl e \<Rightarrow> (Inl e, t @ [Log Info ''Deleting snapshot {0}...'' [AStr s],
                                Request c (SnapshotDelete repo s)])
      | Inr a \<Rightarrow> (Inr (), t @ [Log Info ''Deleting snapshot {0}...'' [AStr s],
                                 Request c (SnapshotDelete repo s)]))"
  shows "j < length xs \<Longrightarrow> \<forall>i<j. \<exists>a. delete_answer cl t c repo xs i = Inr a \<Longrightarrow>
         delete_answer cl t c repo xs j = Inl e \<Longrightarrow>
         for_each xs body t =
           (Inl e, t @ delete_trace c repo (take j xs)
                     @ [Log Info ''Deleting snapshot {0}...'' [AStr (xs ! j)],
                        Request c (SnapshotDelete repo (xs ! j))])"
proof (induction xs arbitrary: t j)
  case Nil
  then show ?case by simp
next
  case (Cons x xs)
  let ?t2 = "t @ [Log Info ''Deleting snapshot {0}...'' [AStr x], Request c (SnapshotDelete repo x)]"
  note bx = body[of x t]
  show ?case
  proof (cases j)
    case 0
    with Cons.prems(3) have "cl (t @ [Log Info ''Deleting snapshot {0}...'' [AStr x]]) c
                            (SnapshotDelete repo x) = Inl e"
      by (simp add: delete_answer_0)
    with 0 show ?thesis by (simp add: for_each_Cons_run bx del: for_each.simps)
  next
    case (Suc j')
    with Cons.prems(2) have "\<exists>a. delete_answer cl t c repo (x # xs) 0 = Inr a" by blast
    then obtain a where a: "cl (t @ [Log Info ''Deleting snapshot {0}...'' [AStr x]]) c
                            (SnapshotDelete repo x) = Inr a"
      by (auto simp: delete_answer_0)
    have l: "j' < length xs" using Cons.prems(1) Suc by simp
    have p: "\<forall>i<j'. \<exists>a. delete_answer cl ?t2 c repo xs i = Inr a"
    proof (intro allI impI)
      fix i assume "i < j'"
      then have "Suc i < j" using Suc by simp
      with Cons.prems(2) have "\<exists>a. delete_answer cl t c repo (x # xs) (Suc i) = Inr a" by blast
      then show "\<exists>a. delete_answer cl ?t2 c repo xs i = Inr a" by (simp add: delete_answer_Suc)
    qed
    have f: "delete_answer cl ?t2 c repo xs j' = Inl e"
      using Cons.prems(3) Suc by (simp add: delete_answer_Suc)
    from Cons.IH[OF l p f] a Suc show ?thesis
      by (simp add: for_each_Cons_run bx del: for_each.simps)
  qed
qed


text \<open>
  Claim C8. On a non-empty collection, \<open>DeleteSnapshots.do_action\<close> first polls the
  in-progress status of the repository: at most \<open>retry_count\<close> polls, with a sleep of
  \<open>retry_interval\<close> between one poll and the next. An exception of a poll leaves
  \<open>do_action\<close> as it is. When the polls end with the repository still busy, all
  \<open>retry_count\<close> polls were made, \<open>do_action\<close> raises the execution failure with the
  message that a snapshot is in progress, and no snapshot-delete request was sent.

  When the repository is free, the snapshots are deleted one request per name, in the
  order of the collection. If the cluster accepts every delete call, \<open>do_action\<close>
  returns, and the trace holds the log line and the request of every name. If the cluster
  accepts the calls before position \<open>j\<close> and answers the call at position \<open>j\<close> with
  an exception \<open>e\<close>, then \<open>do_action\<close> raises the uniform execution failure that
  carries \<open>e\<close>, and the trace ends with that request and the log line of
  \<open>report_failure\<close>: the requests sent are those of the first \<open>j + 1\<close> names, and
  none of the names after it. In every case the requests sent are those of a non-empty
  prefix of the collection.
\<close>

theorem DeleteSnapshots_poll_then_delete:
  assumes "snapshots (ds_snapshot_list self) \<noteq> []"
    and "t0 = t @ [Log Info ''Deleting selected snapshots'' []]"
  shows "\<exists>k res. k \<le> nat (retry_count self) \<and>
           safe_to_snap cl (ds_client self) (ds_repository self) (retry_interval self)
               (retry_count self) t0
             = (res, t0 @ poll_trace (ds_client self) (ds_repository self) (retry_interval self) k) \<and>
           (res = Inr False \<longrightarrow>
              k = nat (retry_count self) \<and>
              DeleteSnapshots_do_action cl self t =
                (Inl (FailedExecution
                   ''Unable to delete snapshot(s) because a snapshot is in state \"IN_PROGRESS\"'' None),
                 t0 @ poll_trace (ds_client self) (ds_repository self) (retry_interval self) k) \<and>
              snapshot_delete_calls (snd (DeleteSnapshots_do_action cl self t))
                = snapshot_delete_calls t) \<and>
           (\<forall>e. res = Inl e \<longrightarrow>
              DeleteSnapshots_do_action cl self t =
                (Inl e, t0 @ poll_trace (ds_client self) (ds_repository self) (retry_interval self) k)) \<and>
           (res = Inr True \<longrightarrow>
              ((\<forall>i < length (snapshots (ds_snapshot_list self)).
                  \<exists>a. delete_answer cl
                        (t0 @ poll_trace (ds_client self) (ds_repository self) (retry_interval self) k)
                        (ds_client self) (ds_repository self) (snapshots (ds_snapshot_list self)) i
                      = Inr a) \<longrightarrow>
               DeleteSnapshots_do_action cl self t =
                 (Inr (),
                  t0 @ poll_trace (ds_client self) (ds_repository self) (retry_interval self) k
                     @ delete_trace (ds_client self) (ds_repository self)
                         (snapshots (ds_snapshot_list self))) \<and>
               snapshot_delete_calls (snd (DeleteSnapshots_do_action cl self t))
                 = snapshot_delete_calls t @ snapshots (ds_snapshot_list self)) \<and>
              (\<forall>j e. j < length (snapshots (ds_snapshot_list self)) \<and>
                 (\<forall>i < j.
                    \<exists>a. delete_answer cl
                          (t0 @ poll_trace (ds_client self) (ds_repository self) (retry_interval self) k)
                          (ds_client self) (ds_repository self) (snapshots (ds_snapshot_list self)) i
                        = Inr a) \<and>
                 delete_answer cl
                   (t0 @ poll_trace (ds_client self) (ds_repository self) (retry_interval self) k)
                   (ds_client self) (ds_repository self) (snapshots (ds_snapshot_list self)) j
                   = Inl e \<longrightarrow>
                 DeleteSnapshots_do_action cl self t =
                   (Inl (FailedExecution ''Exception encountered.'' (Some e)),
                    t0 @ poll_trace (ds_client self) (ds_repository self) (retry_interval self) k
                       @ delete_trace (ds_client self) (ds_repository self)
                           (take j (snapshots (ds_snapshot_list self)))
                       @ [Log Info ''Deleting snapshot {0}...''
                            [AStr (snapshots (ds_snapshot_list self) ! j)],
                          Request (ds_client self)
                            (SnapshotDelete (ds_repository self)
                               (snapshots (ds_snapshot_list self) ! j)),
                          Log Error ''Exception encountered.'' []]) \<and>
                 snapshot_delete_calls (snd (DeleteSnapshots_do_action cl self t))
                   = snapshot_delete_calls t @ take (Suc j) (snapshots (ds_snapshot_list self))) \<and>
              (\<exists>j \<le> length (snapshots (ds_snapshot_list self)).
                 0 < j \<and>
                 snapshot_delete_calls (snd (DeleteSnapshots_do_action cl self t))
                   = snapshot_delete_calls t @ take j (snapshots (ds_snapshot_list self)) \<and>
                 (fst (DeleteSnapshots_do_action cl self t) = Inr () \<and>
                    j = length (snapshots (ds_snapshot_list self)) \<or>
                  (\<exists>e tj. fst (DeleteSnapshots_do_action cl self t)
                             = Inl (FailedExecution ''Exception encountered.'' (Some e)) \<and>
                           cl tj (ds_client self)
                             (SnapshotDelete (ds_repository self)
                                (snapshots (ds_snapshot_list self) ! (j - 1))) = Inl e))))"
proof -
  let ?c = "ds_client self" and ?repo = "ds_repository self" and ?ri = "retry_interval self"
  let ?snaps = "snapshots (ds_snapshot_list self)"
  let ?loop = "for_each ?snaps (\<lambda>s. block [loggit Info ''Deleting snapshot {0}...'' [AStr s],
                           invoke cl ?c (SnapshotDelete ?repo s)])"
  obtain res tp where s: "safe_to_snap cl ?c ?repo ?ri (retry_count self) t0 = (res, tp)"
    by (cases "safe_to_snap cl ?c ?repo ?ri (retry_count self) t0")
  then obtain k where k: "k \<le> nat (retry_count self)" "tp = t0 @ poll_trace ?c ?repo ?ri k"
    "res = Inr False \<longrightarrow> k = nat (retry_count self)"
    using poll_in_progress_run[of cl ?c ?repo ?ri "nat (retry_count self)" t0 res tp]
    by (auto simp: safe_to_snap_def)
  have sd: "snapshot_delete_calls tp = snapshot_delete_calls t"
    using k(2) assms(2) by (simp add: snapshot_delete_calls_append snapshot_delete_calls_poll_trace)
  have busy: "DeleteSnapshots_do_action cl self t =
      (Inl (FailedExecution
         ''Unable to delete snapshot(s) because a snapshot is in state \"IN_PROGRESS\"'' None), tp)"
    if "res = Inr False"
    using that s assms by (simp add: DeleteSnapshots_do_action_def prog_defs)
  have free: "DeleteSnapshots_do_action cl self t = try_except ?loop report_failure tp"
    if "res = Inr True"
    using that s assms
    by (simp add: DeleteSnapshots_do_action_def prog_defs split: prod.splits sum.splits)
  obtain r t' where l: "?loop tp = (r, t')" by (cases "?loop tp")
  have bl: "\<And>s t. block [loggit Info ''Deleting snapshot {0}...'' [AStr s],
                          invoke cl ?c (SnapshotDelete ?repo s)] t =
     (case cl (t @ [Log Info ''Deleting snapshot {0}...'' [AStr s]]) ?c (SnapshotDelete ?repo s) of
        Inl e \<Rightarrow> (Inl e, t @ [Log Info ''Deleting snapshot {0}...'' [AStr s],
                                Request ?c (SnapshotDelete ?repo s)])
      | Inr a \<Rightarrow> (Inr (), t @ [Log Info ''Deleting snapshot {0}...'' [AStr s],
                                 Request ?c (SnapshotDelete ?repo s)]))"
    by (rule block_log_invoke)
  from delete_loop_run[where body = "\<lambda>s. block [loggit Info ''Deleting snapshot {0}...'' [AStr s],
                           invoke cl ?c (SnapshotDelete ?repo s)]"
      and as = "\<lambda>s. [AStr s]" and cl = cl and l = Info
      and m = "''Deleting snapshot {0}...''" and c = ?c and repo = ?repo, OF bl l]
  obtain j where j: "j \<le> length ?snaps"
    "snapshot_delete_calls t' = snapshot_delete_calls tp @ take j ?snaps"
    "r = Inr () \<and> j = length ?snaps \<or>
      (\<exists>e tj. r = Inl e \<and> 0 < j \<and> cl tj ?c (SnapshotDelete ?repo (?snaps ! (j - 1))) = Inl e)"
    by blast
  have j0: "0 < j" using j(3) assms(1) by auto
  have tr: "snapshot_delete_calls (snd (try_except ?loop report_failure tp))
      = snapshot_delete_calls t @ take j ?snaps"
    using l j(2) sd by (auto simp: prog_defs snapshot_delete_calls_append split: sum.splits)
  have fr: "fst (try_except ?loop report_failure tp) = Inr () \<and> j = length ?snaps \<or>
      (\<exists>e tj. fst (try_except ?loop report_failure tp)
                 = Inl (FailedExecution ''Exception encountered.'' (Some e)) \<and>
               cl tj ?c (SnapshotDelete ?repo (?snaps ! (j - 1))) = Inl e)"
    using l j(3) by (auto simp: prog_defs split: sum.splits)
  have err: "DeleteSnapshots_do_action cl self t = (Inl e, tp)" if "res = Inl e" for e
    using that s assms by (simp add: DeleteSnapshots_do_action_def prog_defs)
  have ok: "DeleteSnapshots_do_action cl self t = (Inr (), tp @ delete_trace ?c ?repo ?snaps) \<and>
            snapshot_delete_calls (snd (DeleteSnapshots_do_action cl self t))
              = snapshot_delete_calls t @ ?snaps"
    if "res = Inr True" and "\<forall>i<length ?snaps. \<exists>a. delete_answer cl tp ?c ?repo ?snaps i = Inr a"
  proof -
    from delete_loop_ok[where body = "\<lambda>s. block [loggit Info ''Deleting snapshot {0}...'' [AStr s],
                           invoke cl ?c (SnapshotDelete ?repo s)]"
        and cl = cl and c = ?c and repo = ?repo, OF bl that(2)]
    have "?loop tp = (Inr (), tp @ delete_trace ?c ?repo ?snaps)" .
    then show ?thesis using free[OF that(1)] sd
      by (simp add: try_except_def snapshot_delete_calls_append snapshot_delete_calls_delete_trace)
  qed
  have fail: "DeleteSnapshots_do_action cl self t =
               (Inl (FailedExecution ''Exception encountered.'' (Some e)),
                tp @ delete_trace ?c ?repo (take j ?snaps)
                   @ [Log Info ''Deleting snapshot {0}...'' [AStr (?snaps ! j)],
                      Request ?c (SnapshotDelete ?repo (?snaps ! j)),
                      Log Error ''Exception encountered.'' []]) \<and>
             snapshot_delete_calls (snd (DeleteSnapshots_do_action cl self t))
               = snapshot_delete_calls t @ take (Suc j) ?snaps"
    if "res = Inr True" and "j < length ?snaps"
      and "\<forall>i<j. \<exists>a. delete_answer cl tp ?c ?repo ?snaps i = Inr a"
      and "delete_answer cl tp ?c ?repo ?snaps j = Inl e" for j e
  proof -
    from delete_loop_fail[where body = "\<lambda>s. block [loggit Info ''Deleting snapshot {0}...'' [AStr s],
                           invoke cl ?c (SnapshotDelete ?repo s)]"
        and cl = cl and c = ?c and repo = ?repo, OF bl that(2,3,4)]
    have "?loop tp = (Inl e, tp @ delete_trace ?c ?repo (take j ?snaps)
                     @ [Log Info ''Deleting snapshot {0}...'' [AStr (?snaps ! j)],
                        Request ?c (SnapshotDelete ?repo (?snaps ! j))])" .
    then show ?thesis using free[OF that(1)] sd that(2)
      by (simp add: prog_defs snapshot_delete_calls_append snapshot_delete_calls_delete_trace
          take_Suc_conv_app_nth)
  qed
  have old: "\<exists>j \<le> length ?snaps. 0 < j \<and>
       snapshot_delete_calls (snd (DeleteSnapshots_do_action cl self t))
         = snapshot_delete_calls t @ take j ?snaps \<and>
       (fst (DeleteSnapshots_do_action cl self t) = Inr () \<and> j = length ?snaps \<or>
        (\<exists>e tj. fst (DeleteSnapshots_do_action cl self t)
                   = Inl (FailedExecution ''Exception encountered.'' (Some e)) \<and>
                 cl tj ?c (SnapshotDelete ?repo (?snaps ! (j - 1))) = Inl e))"
    if "res = Inr True"
    using free[OF that] j(1) j0 tr fr by auto
  note tpd = k(2)
  note s' = s[unfolded tpd]
  note busy' = busy[unfolded tpd]
  note err' = err[unfolded tpd]
  note ok' = ok[unfolded tpd append_assoc]
  note fail' = fail[unfolded tpd append_assoc]
  have sd': "res = Inr False \<Longrightarrow>
      snapshot_delete_calls (snd (DeleteSnapshots_do_action cl self t)) = snapshot_delete_calls t"
    using busy sd by simp
  show ?thesis
  proof (intro exI[of _ k] exI[of _ res] conjI)
    show "k \<le> nat (retry_count self)" by (rule k(1))
    show "safe_to_snap cl ?c ?repo ?ri (retry_count self) t0 = (res, t0 @ poll_trace ?c ?repo ?ri k)"
      by (rule s')
    show "res = Inr False \<longrightarrow>
              k = nat (retry_count self) \<and>
              DeleteSnapshots_do_action cl self t =
                (Inl (FailedExecution
                   ''Unable to delete snapshot(s) because a snapshot is in state \"IN_PROGRESS\"'' None),
                 t0 @ poll_trace ?c ?repo ?ri k) \<and>
              snapshot_delete_calls (snd (DeleteSnapshots_do_action cl self t))
                = snapshot_delete_calls t"
      using k(3) busy' sd' by blast
    show "\<forall>e. res = Inl e \<longrightarrow>
              DeleteSnapshots_do_action cl self t = (Inl e, t0 @ poll_trace ?c ?repo ?ri k)"
      using err' by blast
    show "res = Inr True \<longrightarrow>
              ((\<forall>i < length ?snaps.
                  \<exists>a. delete_answer cl (t0 @ poll_trace ?c ?repo ?ri k) ?c ?repo ?snaps i = Inr a) \<longrightarrow>
               DeleteSnapshots_do_action cl self t =
                 (Inr (), t0 @ poll_trace ?c ?repo ?ri k @ delete_trace ?c ?repo ?snaps) \<and>
               snapshot_delete_calls (snd (DeleteSnapshots_do_action cl self t))
                 = snapshot_delete_calls t @ ?snaps) \<and>
              (\<forall>j e. j < length ?snaps \<and>
                 (\<forall>i < j.
                    \<exists>a. delete_answer cl (t0 @ poll_trace ?c ?repo ?ri k) ?c ?repo ?snaps i = Inr a) \<and>
                 delete_answer cl (t0 @ poll_trace ?c ?repo ?ri k) ?c ?repo ?snaps j = Inl e \<longrightarrow>
                 DeleteSnapshots_do_action cl self t =
                   (Inl (FailedExecution ''Exception encountered.'' (Some e)),
                    t0 @ poll_trace ?c ?repo ?ri k
                       @ delete_trace ?c ?repo (take j ?snaps)
                       @ [Log Info ''Deleting snapshot {0}...'' [AStr (?snaps ! j)],
                          Request ?c (SnapshotDelete ?repo (?snaps ! j)),
                          Log Error ''Exception encountered.'' []]) \<and>
                 snapshot_delete_calls (snd (DeleteSnapshots_do_action cl self t))
                   = snapshot_delete_calls t @ take (Suc j) ?snaps) \<and>
              (\<exists>j \<le> length ?snaps.
                 0 < j \<and>
                 snapshot_delete_calls (snd (DeleteSnapshots_do_action cl self t))
                   = snapshot_delete_calls t @ take j ?snaps \<and>
                 (fst (DeleteSnapshots_do_action cl self t) = Inr () \<and> j = length ?snaps \<or>
                  (\<exists>e tj. fst (DeleteSnapshots_do_action cl self t)
                             = Inl (FailedExecution ''Exception encountered.'' (Some e)) \<and>
                           cl tj ?c (SnapshotDelete ?repo (?snaps ! (j - 1))) = Inl e)))"
    proof (intro impI conjI allI)
      assume r: "res = Inr True"
      show "\<exists>j \<le> length ?snaps.
                 0 < j \<and>
                 snapshot_delete_calls (snd (DeleteSnapshots_do_action cl self t))
                   = snapshot_delete_calls t @ take j ?snaps \<and>
                 (fst (DeleteSnapshots_do_action cl self t) = Inr () \<and> j = length ?snaps \<or>
                  (\<exists>e tj. fst (DeleteSnapshots_do_action cl self t)
                             = Inl (FailedExecution ''Exception encountered.'' (Some e)) \<and>
                           cl tj ?c (SnapshotDelete ?repo (?snaps ! (j - 1))) = Inl e))"
        by (rule old[OF r])
    next
      assume r: "res = Inr True"
        and a: "\<forall>i < length ?snaps.
                  \<exists>a. delete_answer cl (t0 @ poll_trace ?c ?repo ?ri k) ?c ?repo ?snaps i = Inr a"
      from ok'[OF r a]
      show "DeleteSnapshots_do_action cl self t =
                 (Inr (), t0 @ poll_trace ?c ?repo ?ri k @ delete_trace ?c ?repo ?snaps)"
        and "snapshot_delete_calls (snd (DeleteSnapshots_do_action cl self t))
                 = snapshot_delete_calls t @ ?snaps" by blast+
    next
      fix j e
      assume r: "res = Inr True"
        and a: "j < length ?snaps \<and>
                 (\<forall>i < j.
                    \<exists>a. delete_answer cl (t0 @ poll_trace ?c ?repo ?ri k) ?c ?repo ?snaps i = Inr a) \<and>
                 delete_answer cl (t0 @ poll_trace ?c ?repo ?ri k) ?c ?repo ?snaps j = Inl e"
      from a have a1: "j < length ?snaps"
        and a2: "\<forall>i < j.
                    \<exists>a. delete_answer cl (t0 @ poll_trace ?c ?repo ?ri k) ?c ?repo ?snaps i = Inr a"
        and a3: "delete_answer cl (t0 @ poll_trace ?c ?repo ?ri k) ?c ?repo ?snaps j = Inl e"
        by blast+
      from fail'[OF r a1 a2 a3]
      show "DeleteSnapshots_do_action cl self t =
                   (Inl (FailedExecution ''Exception encountered.'' (Some e)),
                    t0 @ poll_trace ?c ?repo ?ri k
                       @ delete_trace ?c ?repo (take j ?snaps)
                       @ [Log Info ''Deleting snapshot {0}...'' [AStr (?snaps ! j)],
                          Request ?c (SnapshotDelete ?repo (?snaps ! j)),
                          Log Error ''Exception encountered.'' []])"
        and "snapshot_delete_calls (snd (DeleteSnapshots_do_action cl self t))
                   = snapshot_delete_calls t @ take (Suc j) ?snaps" by blast+
    qed
  qed
qed



theorem DeleteSnapshots_poll_then_delete_witness:
  "snapshots (ds_snapshot_list ds_obj) \<noteq> [] \<and>
   DeleteSnapshots_do_action busy_cluster ds_obj [] =
     (Inl (FailedExecution
        ''Unable to delete snapshot(s) because a snapshot is in state \"IN_PROGRESS\"'' None),
      [Log Info ''Deleting selected snapshots'' [],
       Request 0 (InProgressPoll ''repo''), Sleep 120,
       Request 0 (InProgressPoll ''repo''), Sleep 120,
       Request 0 (InProgressPoll ''repo'')]) \<and>
   fst (DeleteSnapshots_do_action idle_cluster ds_obj []) = Inr () \<and>
   snapshot_delete_calls (snd (DeleteSnapshots_do_action idle_cluster ds_obj []))
     = [''s1'', ''s2'', ''s3''] \<and>
   delete_answer refuse_s2
       [Log Info ''Deleting selected snapshots'' [], Request 0 (InProgressPoll ''repo'')]
       0 ''repo'' [''s1'', ''s2'', ''s3''] 0 = Inr Ack \<and>
   delete_answer refuse_s2
       [Log Info ''Deleting selected snapshots'' [], Request 0 (InProgressPoll ''repo'')]
       0 ''repo'' [''s1'', ''s2'', ''s3''] 1 = Inl (TransportError ''404'') \<and>
   DeleteSnapshots_do_action refuse_s2 ds_obj [] =
     (Inl (FailedExecution ''Exception encountered.'' (Some (TransportError ''404''))),
      [Log Info ''Deleting selected snapshots'' [],
       Request 0 (InProgressPoll ''repo''),
       Log Info ''Deleting snapshot {0}...'' [AStr ''s1''],
       Request 0 (SnapshotDelete ''repo'' ''s1''),
       Log Info ''Deleting snapshot {0}...'' [AStr ''s2''],
       Request 0 (SnapshotDelete ''repo'' ''s2''),
       Log Error ''Exception encountered.'' []]) \<and>
   snapshot_delete_calls (snd (DeleteSnapshots_do_action refuse_s2 ds_obj [])) = [''s1'', ''s2'']"
proof -
  have a: "snapshots (ds_snapshot_list ds_obj) \<noteq> []" by (simp add: ds_obj_def)
  have b: "DeleteSnapshots_do_action busy_cluster ds_obj [] =
     (Inl (FailedExecution
        ''Unable to delete snapshot(s) because a snapshot is in state \"IN_PROGRESS\"'' None),
      [Log Info ''Deleting selected snapshots'' [],
       Request 0 (InProgressPoll ''repo''), Sleep 120,
       Request 0 (InProgressPoll ''repo''), Sleep 120,
       Request 0 (InProgressPoll ''repo'')])"
    by (simp add: DeleteSnapshots_do_action_def safe_to_snap_def expect_flag_def prog_defs
      ds_obj_def busy_cluster_def eval_nat_numeral)
  have c: "fst (DeleteSnapshots_do_action idle_cluster ds_obj []) = Inr ()"
    "snapshot_delete_calls (snd (DeleteSnapshots_do_action idle_cluster ds_obj []))
     = [''s1'', ''s2'', ''s3'']"
    by (simp_all add: DeleteSnapshots_do_action_def safe_to_snap_def expect_flag_def prog_defs
      ds_obj_def idle_cluster_def eval_nat_numeral)
  have d: "delete_answer refuse_s2
       [Log Info ''Deleting selected snapshots'' [], Request 0 (InProgressPoll ''repo'')]
       0 ''repo'' [''s1'', ''s2'', ''s3''] 0 = Inr Ack"
    "delete_answer refuse_s2
       [Log Info ''Deleting selected snapshots'' [], Request 0 (InProgressPoll ''repo'')]
       0 ''repo'' [''s1'', ''s2'', ''s3''] 1 = Inl (TransportError ''404'')"
    by (simp_all add: delete_answer_def refuse_s2_def)
  have e: "DeleteSnapshots_do_action refuse_s2 ds_obj [] =
     (Inl (FailedExecution ''Exception encountered.'' (Some (TransportError ''404''))),
      [Log Info ''Deleting selected snapshots'' [],
       Request 0 (InProgressPoll ''repo''),
       Log Info ''Deleting snapshot {0}...'' [AStr ''s1''],
       Request 0 (SnapshotDelete ''repo'' ''s1''),
       Log Info ''Deleting snapshot {0}...'' [AStr ''s2''],
       Request 0 (SnapshotDelete ''repo'' ''s2''),
       Log Error ''Exception encountered.'' []])"
    by (simp add: DeleteSnapshots_do_action_def safe_to_snap_def expect_flag_def prog_defs
      ds_obj_def refuse_s2_def eval_nat_numeral)
  have f: "snapshot_delete_calls (snd (DeleteSnapshots_do_action refuse_s2 ds_obj [])) = [''s1'', ''s2'']"
    by (simp add: e)
  from DeleteSnapshots_poll_then_delete[OF a refl, of refuse_s2 "[]"] a b c d e f show ?thesis by blast
qed

subsection \<open>DeleteIndices\<close>

lemma delete_calls_append: "delete_calls (t @ es) = delete_calls t @ delete_calls es"
  by (induction t rule: delete_calls.induct) simp_all

lemma delete_calls_logs: "delete_calls (map (\<lambda>i. Log l m (f i)) xs) = []"
  by (induction xs) simp_all

lemma delete_calls_queries: "delete_calls (replicate n (Request c GetIndices)) = []"
  by (induction n) simp_all

lemma for_each_loggit:
  "for_each xs (\<lambda>i. loggit l m (f i)) t = (Inr (), t @ map (\<lambda>i. Log l m (f i)) xs)"
  by (induction xs arbitrary: t) (simp_all add: ret_def thn_def bnd_def loggit_def)

lemma get_indices_run:
  "get_indices cl c t =
     (case cl t c GetIndices of
        Inl e \<Rightarrow> (Inl e, t @ [Request c GetIndices])
      | Inr (Names ns) \<Rightarrow> (Inr ns, t @ [Request c GetIndices])
      | Inr other \<Rightarrow> (Inl (TypeError ''bad response''), t @ [Request c GetIndices]))"
  by (simp add: get_indices_def prog_defs split: sum.splits resp.splits)

lemma still_present_Cons_run:
  "still_present cl c (i # rest) t =
     (case get_indices cl c t of
        (Inl e, t1) \<Rightarrow> (Inl e, t1)
      | (Inr names, t1) \<Rightarrow>
          (case still_present cl c rest t1 of
             (Inl e, t2) \<Rightarrow> (Inl e, t2)
           | (Inr kept, t2) \<Rightarrow> (Inr (if i \<in> set names then i # kept else kept), t2)))"
  by (simp add: bnd_def ret_def split: prod.splits sum.splits)

lemma still_present_facts:
  "still_present cl c w t = (r, t') \<Longrightarrow>
     delete_calls t' = delete_calls t \<and> (\<forall>res. r = Inr res \<longrightarrow> subseq res w)"
proof (induction w arbitrary: t r t')
  case Nil
  then show ?case by (auto simp: ret_def)
next
  case (Cons i rest)
  obtain r1 t1 where g: "get_indices cl c t = (r1, t1)" by (cases "get_indices cl c t")
  then have t1: "t1 = t @ [Request c GetIndices]"
    by (auto simp: get_indices_run split: sum.splits resp.splits)
  show ?case
  proof (cases r1)
    case (Inl e)
    with Cons.prems g t1 show ?thesis
      by (auto simp: still_present_Cons_run delete_calls_append simp del: still_present.simps(2) chunk_loop_from.simps(2))
  next
    case (Inr names)
    obtain r2 t2 where s: "still_present cl c rest t1 = (r2, t2)"
      by (cases "still_present cl c rest t1")
    from Cons.IH[OF s] have ih: "delete_calls t2 = delete_calls t1"
      "\<forall>res. r2 = Inr res \<longrightarrow> subseq res rest" by simp_all
    show ?thesis
    proof (cases r2)
      case (Inl e)
      with Cons.prems g s Inr ih t1 show ?thesis
        by (auto simp: still_present_Cons_run delete_calls_append simp del: still_present.simps(2) chunk_loop_from.simps(2))
    next
      case (Inr kept)
      with Cons.prems g s \<open>r1 = Inr names\<close> ih t1 show ?thesis
        by (auto simp: still_present_Cons_run delete_calls_append simp del: still_present.simps(2) chunk_loop_from.simps(2))
    qed
  qed
qed

text \<open>
  When every query of the re-check is answered with the same index set, the result is
  the subset of the working list that is in that set, in the order of the working list.
\<close>

lemma still_present_stable:
  "(\<forall>k<length w. cl (t @ replicate k (Request c GetIndices)) c GetIndices = Inr (Names ns)) \<Longrightarrow>
   still_present cl c w t =
     (Inr (filter (\<lambda>i. i \<in> set ns) w), t @ replicate (length w) (Request c GetIndices))"
proof (induction w arbitrary: t)
  case Nil
  show ?case by (simp add: ret_def)
next
  case (Cons i rest)
  from Cons.prems have g: "cl t c GetIndices = Inr (Names ns)" by fastforce
  have "\<forall>k<length rest. cl ((t @ [Request c GetIndices]) @ replicate k (Request c GetIndices)) c GetIndices
          = Inr (Names ns)"
  proof (intro allI impI)
    fix k assume "k < length rest"
    then have "Suc k < length (i # rest)" by simp
    with Cons.prems have "cl (t @ replicate (Suc k) (Request c GetIndices)) c GetIndices = Inr (Names ns)"
      by blast
    then show "cl ((t @ [Request c GetIndices]) @ replicate k (Request c GetIndices)) c GetIndices
          = Inr (Names ns)" by simp
  qed
  from Cons.IH[OF this] show ?case using g
    by (simp add: still_present_Cons_run get_indices_run replicate_app_Cons_same
        del: still_present.simps(2) chunk_loop_from.simps(2))
qed

lemma verify_result_run:
  "verify_result res count t =
     (Inr (res = []),
      t @ (if res = [] then [Log Debug ''Successfully deleted all indices on try #{0}'' [AInt count]]
           else Log Error ''The following indices failed to delete on try #{0}:'' [AInt count]
                  # map (\<lambda>idx. Log Error ''---{0}'' [AStr idx]) res))"
  by (simp add: verify_result_def for_each_loggit thn_def bnd_def ret_def loggit_def)

lemma delete_calls_verify:
  "delete_calls (snd (verify_result res count t)) = delete_calls t"
  by (simp add: verify_result_run delete_calls_append delete_calls_logs)

text \<open>One pass of the loop, step by step.\<close>

lemma chunk_loop_body_run:
  "chunk_loop_body cl self w count t =
     (let t1 = t @ map (\<lambda>i. Log Info ''---deleting index {0}'' [AStr i]) w;
          t2 = t1 @ [Request (di_client self) (Delete (to_csv w) (master_timeout self))]
      in case cl t1 (di_client self) (Delete (to_csv w) (master_timeout self)) of
           Inl e \<Rightarrow> (Inl e, t2)
         | Inr a \<Rightarrow>
             (case still_present cl (di_client self) w t2 of
                (Inl e, t3) \<Rightarrow> (Inl e, t3)
              | (Inr res, t3) \<Rightarrow> (Inr (res = [], res), snd (verify_result res count t3))))"
  by (simp add: chunk_loop_body_def for_each_loggit verify_result_run Let_def thn_def bnd_def
      ret_def invoke_def request_def split: sum.splits prod.splits)

lemma chunk_loop_body_facts:
  assumes "chunk_loop_body cl self w count t = (rb, t1)"
  shows "delete_calls t1 = delete_calls t @ [to_csv w] \<and>
         (\<forall>ok res. rb = Inr (ok, res) \<longrightarrow> ok = (res = []) \<and> subseq res w)"
proof -
  let ?t1 = "t @ map (\<lambda>i. Log Info ''---deleting index {0}'' [AStr i]) w"
  let ?t2 = "?t1 @ [Request (di_client self) (Delete (to_csv w) (master_timeout self))]"
  have d2: "delete_calls ?t2 = delete_calls t @ [to_csv w]"
    by (simp add: delete_calls_append delete_calls_logs)
  obtain rs t3 where s: "still_present cl (di_client self) w ?t2 = (rs, t3)"
    by (cases "still_present cl (di_client self) w ?t2")
  from still_present_facts[OF s] have f: "delete_calls t3 = delete_calls ?t2"
    "\<forall>res. rs = Inr res \<longrightarrow> subseq res w" by simp_all
  show ?thesis
    using assms d2 s f
    by (auto simp: chunk_loop_body_run Let_def delete_calls_verify split: sum.splits)
qed

lemma chunk_loop_from_Cons_run:
  "chunk_loop_from cl self (count # counts) w res0 t =
     (case chunk_loop_body cl self w count t of
        (Inl e, t1) \<Rightarrow> (Inl e, t1)
      | (Inr (ok, res), t1) \<Rightarrow>
          if ok then (Inr (), t1) else chunk_loop_from cl self counts res res t1)"
  by (simp add: bnd_def ret_def split: prod.splits sum.splits)


lemma requests_replicate: "requests (replicate n (Request c q)) = replicate n (c, q)"
  by (induction n) simp_all

text \<open>
  One turn of the loop: the pass raises, or finds nothing left and the loop returns, or
  finds a non-empty rest and the loop goes on with that rest as its working list.
\<close>

lemma chunk_loop_stage:
  assumes "chunk_loop_from cl self (count # counts) w res0 t = (r, t')"
  shows "(\<exists>e. chunk_loop_body cl self w count t = (Inl e, t') \<and> r = Inl e \<and>
              delete_calls t' = delete_calls t @ [to_csv w]) \<or>
         (chunk_loop_body cl self w count t = (Inr (True, []), t') \<and> r = Inr () \<and>
              delete_calls t' = delete_calls t @ [to_csv w]) \<or>
         (\<exists>res t1. res \<noteq> [] \<and> subseq res w \<and>
              chunk_loop_body cl self w count t = (Inr (False, res), t1) \<and>
              delete_calls t1 = delete_calls t @ [to_csv w] \<and>
              chunk_loop_from cl self counts res res t1 = (r, t'))"
proof -
  obtain rb t1 where b: "chunk_loop_body cl self w count t = (rb, t1)"
    by (cases "chunk_loop_body cl self w count t")
  note f = chunk_loop_body_facts[OF b]
  show ?thesis
  proof (cases rb)
    case (Inl e)
    with assms b f show ?thesis
      by (simp add: chunk_loop_from_Cons_run del: chunk_loop_from.simps)
  next
    case (Inr p)
    obtain ok res where p: "p = (ok, res)" by (cases p)
    with Inr f have ok: "ok = (res = [])" and sub: "subseq res w" by simp_all
    show ?thesis
    proof (cases "res = []")
      case True
      with assms b f Inr p ok show ?thesis
        by (simp add: chunk_loop_from_Cons_run del: chunk_loop_from.simps)
    next
      case False
      with assms b f Inr p ok sub show ?thesis
        by (simp add: chunk_loop_from_Cons_run del: chunk_loop_from.simps)
    qed
  qed
qed

text \<open>
  Claim C1. Every run of \<open>__chunk_loop\<close> on a chunk is one of these. The first pass
  sends one delete call for the whole chunk; a pass that raises ends the loop with that
  exception. When the re-check of a pass finds no index of its working list left, the
  loop returns and no further delete call is sent: one delete call when the first pass
  converges, exactly two when the second does, three when the third does. Otherwise the
  next pass works on the indices found still present, a sublist of the working list of
  the pass before, and its delete call names only those. There are at most three passes:
  when the third re-check still finds indices, the loop logs the error that it was
  unable to delete them and returns without an exception.

  The second part says what one pass does when the cluster accepts the delete call and
  answers every query of the re-check with the same index set: it sends the delete call
  for the working list, then the queries and nothing else, and its result is the
  sublist of the working list that is in that set, with the verdict that it is empty.
\<close>

theorem chunk_loop_retries:
  assumes run: "chunk_loop cl self chunk t = (r, t')"
  shows
   "((\<exists>e. chunk_loop_body cl self chunk 1 t = (Inl e, t') \<and> r = Inl e \<and>
          delete_calls t' = delete_calls t @ [to_csv chunk]) \<or>
     (chunk_loop_body cl self chunk 1 t = (Inr (True, []), t') \<and> r = Inr () \<and>
          delete_calls t' = delete_calls t @ [to_csv chunk]) \<or>
     (\<exists>r1 t1. r1 \<noteq> [] \<and> subseq r1 chunk \<and>
        chunk_loop_body cl self chunk 1 t = (Inr (False, r1), t1) \<and>
        ((\<exists>e. chunk_loop_body cl self r1 2 t1 = (Inl e, t') \<and> r = Inl e \<and>
             delete_calls t' = delete_calls t @ [to_csv chunk, to_csv r1]) \<or>
         (chunk_loop_body cl self r1 2 t1 = (Inr (True, []), t') \<and> r = Inr () \<and>
             delete_calls t' = delete_calls t @ [to_csv chunk, to_csv r1]) \<or>
         (\<exists>r2 t2. r2 \<noteq> [] \<and> subseq r2 r1 \<and>
            chunk_loop_body cl self r1 2 t1 = (Inr (False, r2), t2) \<and>
            delete_calls t' = delete_calls t @ [to_csv chunk, to_csv r1, to_csv r2] \<and>
            ((\<exists>e. chunk_loop_body cl self r2 3 t2 = (Inl e, t') \<and> r = Inl e) \<or>
             (chunk_loop_body cl self r2 3 t2 = (Inr (True, []), t') \<and> r = Inr ()) \<or>
             (\<exists>r3 t3. r3 \<noteq> [] \<and> subseq r3 r2 \<and>
                chunk_loop_body cl self r2 3 t2 = (Inr (False, r3), t3) \<and> r = Inr () \<and>
                t' = t3 @ [Log Error
                  ''Unable to delete the following indices after 3 attempts: {0}'' [AList r3]])))))) \<and>
    (\<forall>w count t0 a ns.
       cl (t0 @ map (\<lambda>i. Log Info ''---deleting index {0}'' [AStr i]) w) (di_client self)
          (Delete (to_csv w) (master_timeout self)) = Inr a \<and>
       (\<forall>k<length w.
          cl (t0 @ map (\<lambda>i. Log Info ''---deleting index {0}'' [AStr i]) w
                @ Request (di_client self) (Delete (to_csv w) (master_timeout self))
                # replicate k (Request (di_client self) GetIndices))
             (di_client self) GetIndices = Inr (Names ns))
       \<longrightarrow> fst (chunk_loop_body cl self w count t0)
             = Inr (filter (\<lambda>i. i \<in> set ns) w = [], filter (\<lambda>i. i \<in> set ns) w) \<and>
           requests (snd (chunk_loop_body cl self w count t0))
             = requests t0 @ (di_client self, Delete (to_csv w) (master_timeout self))
                 # replicate (length w) (di_client self, GetIndices))"
proof -
  let ?unable = "\<lambda>r3. Log Error ''Unable to delete the following indices after 3 attempts: {0}''
                       [AList r3]"
  have part2: "fst (chunk_loop_body cl self w count t0)
             = Inr (filter (\<lambda>i. i \<in> set ns) w = [], filter (\<lambda>i. i \<in> set ns) w) \<and>
           requests (snd (chunk_loop_body cl self w count t0))
             = requests t0 @ (di_client self, Delete (to_csv w) (master_timeout self))
                 # replicate (length w) (di_client self, GetIndices)"
    if d: "cl (t0 @ map (\<lambda>i. Log Info ''---deleting index {0}'' [AStr i]) w) (di_client self)
          (Delete (to_csv w) (master_timeout self)) = Inr a"
      and q: "\<forall>k<length w.
          cl (t0 @ map (\<lambda>i. Log Info ''---deleting index {0}'' [AStr i]) w
                @ Request (di_client self) (Delete (to_csv w) (master_timeout self))
                # replicate k (Request (di_client self) GetIndices))
             (di_client self) GetIndices = Inr (Names ns)"
    for w count t0 a ns
  proof -
    let ?t2 = "(t0 @ map (\<lambda>i. Log Info ''---deleting index {0}'' [AStr i]) w) @
               [Request (di_client self) (Delete (to_csv w) (master_timeout self))]"
    from q have "\<forall>k<length w. cl (?t2 @ replicate k (Request (di_client self) GetIndices))
                    (di_client self) GetIndices = Inr (Names ns)" by simp
    from still_present_stable[of w cl ?t2 "di_client self" ns, OF this] d show ?thesis
      by (simp add: chunk_loop_body_run Let_def verify_result_run requests_append requests_logs
          requests_replicate)
  qed
  from run have s1: "chunk_loop_from cl self [1, 2, 3] chunk [] t = (r, t')"
    by (simp add: chunk_loop_def)
  have part1:
   "(\<exists>e. chunk_loop_body cl self chunk 1 t = (Inl e, t') \<and> r = Inl e \<and>
          delete_calls t' = delete_calls t @ [to_csv chunk]) \<or>
     (chunk_loop_body cl self chunk 1 t = (Inr (True, []), t') \<and> r = Inr () \<and>
          delete_calls t' = delete_calls t @ [to_csv chunk]) \<or>
     (\<exists>r1 t1. r1 \<noteq> [] \<and> subseq r1 chunk \<and>
        chunk_loop_body cl self chunk 1 t = (Inr (False, r1), t1) \<and>
        ((\<exists>e. chunk_loop_body cl self r1 2 t1 = (Inl e, t') \<and> r = Inl e \<and>
             delete_calls t' = delete_calls t @ [to_csv chunk, to_csv r1]) \<or>
         (chunk_loop_body cl self r1 2 t1 = (Inr (True, []), t') \<and> r = Inr () \<and>
             delete_calls t' = delete_calls t @ [to_csv chunk, to_csv r1]) \<or>
         (\<exists>r2 t2. r2 \<noteq> [] \<and> subseq r2 r1 \<and>
            chunk_loop_body cl self r1 2 t1 = (Inr (False, r2), t2) \<and>
            delete_calls t' = delete_calls t @ [to_csv chunk, to_csv r1, to_csv r2] \<and>
            ((\<exists>e. chunk_loop_body cl self r2 3 t2 = (Inl e, t') \<and> r = Inl e) \<or>
             (chunk_loop_body cl self r2 3 t2 = (Inr (True, []), t') \<and> r = Inr ()) \<or>
             (\<exists>r3 t3. r3 \<noteq> [] \<and> subseq r3 r2 \<and>
                chunk_loop_body cl self r2 3 t2 = (Inr (False, r3), t3) \<and> r = Inr () \<and>
                t' = t3 @ [?unable r3])))))"
    using chunk_loop_stage[OF s1]
  proof (elim disjE exE conjE)
    fix r1 t1
    assume a1: "r1 \<noteq> []" "subseq r1 chunk"
      "chunk_loop_body cl self chunk 1 t = (Inr (False, r1), t1)"
      "delete_calls t1 = delete_calls t @ [to_csv chunk]"
      and s2: "chunk_loop_from cl self [2, 3] r1 r1 t1 = (r, t')"
    from chunk_loop_stage[OF s2]
    have "(\<exists>e. chunk_loop_body cl self r1 2 t1 = (Inl e, t') \<and> r = Inl e \<and>
             delete_calls t' = delete_calls t @ [to_csv chunk, to_csv r1]) \<or>
         (chunk_loop_body cl self r1 2 t1 = (Inr (True, []), t') \<and> r = Inr () \<and>
             delete_calls t' = delete_calls t @ [to_csv chunk, to_csv r1]) \<or>
         (\<exists>r2 t2. r2 \<noteq> [] \<and> subseq r2 r1 \<and>
            chunk_loop_body cl self r1 2 t1 = (Inr (False, r2), t2) \<and>
            delete_calls t' = delete_calls t @ [to_csv chunk, to_csv r1, to_csv r2] \<and>
            ((\<exists>e. chunk_loop_body cl self r2 3 t2 = (Inl e, t') \<and> r = Inl e) \<or>
             (chunk_loop_body cl self r2 3 t2 = (Inr (True, []), t') \<and> r = Inr ()) \<or>
             (\<exists>r3 t3. r3 \<noteq> [] \<and> subseq r3 r2 \<and>
                chunk_loop_body cl self r2 3 t2 = (Inr (False, r3), t3) \<and> r = Inr () \<and>
                t' = t3 @ [?unable r3])))"
    proof (elim disjE exE conjE)
      fix r2 t2
      assume a2: "r2 \<noteq> []" "subseq r2 r1"
        "chunk_loop_body cl self r1 2 t1 = (Inr (False, r2), t2)"
        "delete_calls t2 = delete_calls t1 @ [to_csv r1]"
        and s3: "chunk_loop_from cl self [3] r2 r2 t2 = (r, t')"
      from chunk_loop_stage[OF s3]
      have "delete_calls t' = delete_calls t2 @ [to_csv r2] \<and>
            ((\<exists>e. chunk_loop_body cl self r2 3 t2 = (Inl e, t') \<and> r = Inl e) \<or>
             (chunk_loop_body cl self r2 3 t2 = (Inr (True, []), t') \<and> r = Inr ()) \<or>
             (\<exists>r3 t3. r3 \<noteq> [] \<and> subseq r3 r2 \<and>
                chunk_loop_body cl self r2 3 t2 = (Inr (False, r3), t3) \<and> r = Inr () \<and>
                t' = t3 @ [?unable r3]))"
        by (elim disjE exE conjE) (auto simp: loggit_def delete_calls_append)
      with a1 a2 show ?thesis by auto
    qed (use a1 in auto)
    with a1 show ?thesis by blast
  qed auto
  from part1 part2 show ?thesis by blast
qed


lemmas chunk_loop_eval = chunk_loop_def chunk_loop_from_Cons_run chunk_loop_body_run
  still_present_Cons_run get_indices_run verify_result_run Let_def loggit_def ret_def
  delete_calls_append

theorem chunk_loop_retries_witness:
  "fst (chunk_loop converge2 di_obj [''a'', ''b'', ''c'', ''d'', ''e''] []) = Inr () \<and>
   delete_calls (snd (chunk_loop converge2 di_obj [''a'', ''b'', ''c'', ''d'', ''e''] []))
     = [''a,b,c,d,e'', ''d,e''] \<and>
   fst (chunk_loop_body converge2 di_obj [''a'', ''b'', ''c'', ''d'', ''e''] 1 [])
     = Inr (False, [''d'', ''e'']) \<and>
   fst (chunk_loop stuck_cluster di_obj [''a'', ''b''] []) = Inr () \<and>
   delete_calls (snd (chunk_loop stuck_cluster di_obj [''a'', ''b''] [])) = [''a,b'', ''a'', ''a''] \<and>
   last (snd (chunk_loop stuck_cluster di_obj [''a'', ''b''] []))
     = Log Error ''Unable to delete the following indices after 3 attempts: {0}'' [AList [''a'']]"
proof -
  have c: "chunk_loop converge2 di_obj [''a'', ''b'', ''c'', ''d'', ''e''] []
      = (fst (chunk_loop converge2 di_obj [''a'', ''b'', ''c'', ''d'', ''e''] []),
         snd (chunk_loop converge2 di_obj [''a'', ''b'', ''c'', ''d'', ''e''] []))"
    by simp
  have 1: "fst (chunk_loop converge2 di_obj [''a'', ''b'', ''c'', ''d'', ''e''] []) = Inr ()"
    by (simp add: chunk_loop_eval converge2_def di_obj_def del: still_present.simps(2) chunk_loop_from.simps(2))
  have 2: "delete_calls (snd (chunk_loop converge2 di_obj [''a'', ''b'', ''c'', ''d'', ''e''] []))
     = [''a,b,c,d,e'', ''d,e'']"
    by (simp add: chunk_loop_eval converge2_def di_obj_def del: still_present.simps(2) chunk_loop_from.simps(2))
  have 3: "fst (chunk_loop_body converge2 di_obj [''a'', ''b'', ''c'', ''d'', ''e''] 1 [])
     = Inr (False, [''d'', ''e''])"
    by (simp add: chunk_loop_eval converge2_def di_obj_def del: still_present.simps(2) chunk_loop_from.simps(2))
  have 4: "fst (chunk_loop stuck_cluster di_obj [''a'', ''b''] []) = Inr ()"
    by (simp add: chunk_loop_eval stuck_cluster_def di_obj_def del: still_present.simps(2) chunk_loop_from.simps(2))
  have 5: "delete_calls (snd (chunk_loop stuck_cluster di_obj [''a'', ''b''] [])) = [''a,b'', ''a'', ''a'']"
    by (simp add: chunk_loop_eval stuck_cluster_def di_obj_def del: still_present.simps(2) chunk_loop_from.simps(2))
  have 6: "last (snd (chunk_loop stuck_cluster di_obj [''a'', ''b''] []))
     = Log Error ''Unable to delete the following indices after 3 attempts: {0}'' [AList [''a'']]"
    by (simp add: chunk_loop_eval stuck_cluster_def di_obj_def del: still_present.simps(2) chunk_loop_from.simps(2))
  from chunk_loop_retries[OF c] 1 2 3 4 5 6 show ?thesis by blast
qed

end
